theory Spec2Isabelle
  imports Complex_Main "HOL-Library.Sublist" "HOL-Library.Log_Nat"
begin

section \<open>Data model (types/timesheet.ts)\<close>

text \<open>
  A \<open>TimesheetEntry\<close> is one row of the uploaded file. The string fields are JavaScript
  strings, modelled as \<open>string\<close>; the hour buckets are JavaScript numbers, modelled by
  the exact rational value of a finite binary64 (see \<open>isBinary64\<close> below, which says
  that a rational is such a value); \<open>NaN\<close> and the infinities are not values of a field
  in this model, they only arise as results of arithmetic.
  A property that the parser leaves \<open>undefined\<close> is read as the empty string: the
  validator only tests such a field for truthiness before it uses it, and compares it
  with non-empty literals.
\<close>

record TimesheetEntry =
  employeeId :: string
  startDate :: string
  endDate :: string
  timesheetStatus :: string
  scheduleHours :: rat
  reportedHours :: rat
  regularHours :: rat
  overtimeHours :: rat
  holidayHours :: rat
  leaveHours :: rat
  totalHours :: rat

datatype severity = Error | Warning

record ValidationError =
  row :: nat
  field :: string
  message :: string
  severity :: severity

record ValidationResult =
  isValid :: bool
  errors :: "ValidationError list"
  warnings :: "ValidationError list"

section \<open>JavaScript numbers\<close>

text \<open>
  The results of arithmetic on numbers: a finite binary64, given by its exact rational
  value, an infinity or \<open>NaN\<close>. The two zeros are one value: the comparisons,
  \<open>Math.abs\<close>, \<open>toFixed\<close> and the template literals of the validator do not tell them
  apart.
\<close>

datatype jsnum = Fin rat | PosInf | NegInf | NaN

text \<open>
  Rounding to the nearest binary64, ties to even (IEEE 754; ECMAScript has no other
  rounding). For a positive \<open>q\<close>, \<open>ilog2 q\<close> is the exponent \<open>e\<close> with
  \<open>2 powi e \<le> q < 2 powi (e + 1)\<close>. The binary64 numbers of that binade are the multiples
  of \<open>2 powi (e - 52)\<close>; below \<open>2 powi (- 1022)\<close>, the subnormal range, they are the
  multiples of \<open>2 powi (- 1074)\<close>. A result that rounds to \<open>2 ^ 1024\<close> or more is infinite.
\<close>

definition ilog2 :: "rat \<Rightarrow> int" where
  "ilog2 q =
     (if 1 \<le> q then bitlen \<lfloor>q\<rfloor> - 1
      else - bitlen (\<lceil>1 / q\<rceil> - 1))"

definition roundHalfEven :: "rat \<Rightarrow> int" where
  "roundHalfEven n =
     (let f = \<lfloor>n\<rfloor>; d = n - of_int f in
      if d < 1 / 2 then f
      else if 1 / 2 < d then f + 1
      else if even f then f else f + 1)"

definition roundPos :: "rat \<Rightarrow> jsnum" where
  "roundPos q =
     (let e = max (ilog2 q) (- 1022);
          ulp = 2 powi (e - 52);
          y = of_int (roundHalfEven (q / ulp)) * ulp in
      if 2 ^ 1024 \<le> y then PosInf else Fin y)"

fun neg64 :: "jsnum \<Rightarrow> jsnum" where
  "neg64 (Fin x) = Fin (- x)"
| "neg64 PosInf = NegInf"
| "neg64 NegInf = PosInf"
| "neg64 NaN = NaN"

definition fl64 :: "rat \<Rightarrow> jsnum" where
  "fl64 q = (if q = 0 then Fin 0 else if 0 < q then roundPos q else neg64 (roundPos (- q)))"


text \<open>
  The operators \<open>+\<close>, \<open>-\<close>, \<open>Math.abs\<close> and \<open>>\<close> of the validator's total-hours rule: the
  exact result, rounded.
\<close>

fun add64 :: "jsnum \<Rightarrow> jsnum \<Rightarrow> jsnum" where
  "add64 (Fin a) (Fin b) = fl64 (a + b)"
| "add64 NaN y = NaN"
| "add64 x NaN = NaN"
| "add64 PosInf NegInf = NaN"
| "add64 NegInf PosInf = NaN"
| "add64 PosInf y = PosInf"
| "add64 x PosInf = PosInf"
| "add64 NegInf y = NegInf"
| "add64 x NegInf = NegInf"

definition sub64 :: "jsnum \<Rightarrow> jsnum \<Rightarrow> jsnum" where
  "sub64 x y = add64 x (neg64 y)"

fun abs64 :: "jsnum \<Rightarrow> jsnum" where
  "abs64 (Fin x) = Fin \<bar>x\<bar>"
| "abs64 PosInf = PosInf"
| "abs64 NegInf = PosInf"
| "abs64 NaN = NaN"

fun gt64 :: "jsnum \<Rightarrow> jsnum \<Rightarrow> bool" where
  "gt64 (Fin a) (Fin b) = (b < a)"
| "gt64 PosInf (Fin b) = True"
| "gt64 PosInf NegInf = True"
| "gt64 (Fin a) NegInf = True"
| "gt64 x y = False"

section \<open>The JavaScript platform\<close>

text \<open>
  The validator calls built-ins of the JavaScript runtime whose results depend on the
  engine and on the local time zone. They are parameters of the model:
  \<^item> \<open>parseDate s\<close> is \<open>new Date(s).getTime()\<close>, in milliseconds, \<open>None\<close> for \<open>NaN\<close>;
  \<^item> \<open>numToString x\<close> is the text a template literal substitutes for the number \<open>x\<close>;
  \<^item> \<open>toFixed2 x\<close> is \<open>x.toFixed(2)\<close>, also for an infinite \<open>x\<close> and for \<open>NaN\<close>;
  \<^item> \<open>getFullYear t\<close> is the local calendar year of the time value \<open>t\<close>;
  \<^item> \<open>setFullYear t y\<close> is the time value of \<open>t\<close> after \<open>setFullYear(y)\<close>;
  \<^item> \<open>parseFloat s\<close> is \<open>parseFloat(s)\<close>, \<open>None\<close> for \<open>NaN\<close>.
\<close>

record platform =
  parseFloat :: "string \<Rightarrow> rat option"
  parseDate :: "string \<Rightarrow> int option"
  numToString :: "rat \<Rightarrow> string"
  toFixed2 :: "jsnum \<Rightarrow> string"
  getFullYear :: "int \<Rightarrow> int"
  setFullYear :: "int \<Rightarrow> int \<Rightarrow> int"

text \<open>
  \<open>new Date()\<close> reads the wall clock. The clock is a function from the number of
  readings made so far to the time value read; the validator threads that number.
\<close>

type_synonym clock = "nat \<Rightarrow> int"

text \<open>\<open>Array.prototype.join\<close> on strings, and \<open>Math.round\<close> (halves go up).\<close>

fun join :: "string \<Rightarrow> string list \<Rightarrow> string" where
  "join sep [] = []"
| "join sep [x] = x"
| "join sep (x # y # ys) = x @ sep @ join sep (y # ys)"

definition mathRound :: "rat \<Rightarrow> int" where
  "mathRound x = \<lfloor>x + 1 / 2\<rfloor>"

section \<open>The rule engine (utils/validator.ts)\<close>

text \<open>
  The body of the \<open>forEach\<close> callback pushes findings onto one of two arrays. A push is
  the array it goes to together with the object pushed; each group of checks below
  returns its pushes in source order.
\<close>

datatype sink = ToErrors | ToWarnings

type_synonym push = "sink \<times> ValidationError"

definition validStatuses :: "string list" where
  "validStatuses =
     [''Approved'', ''Partially Submitted'', ''Needs Approval'', ''Not Submitted'',
      ''Absence/Holiday'', ''Partially Approved'']"

text \<open>Required field validation, with the unknown-status warning.\<close>

definition requiredChecks :: "nat \<Rightarrow> TimesheetEntry \<Rightarrow> push list" where
  "requiredChecks r e =
     (if employeeId e = [] then
        [(ToErrors, \<lparr>row = r, field = ''employeeId'',
            message = ''Employee ID is required'', severity = Error\<rparr>)]
      else []) @
     (if startDate e = [] then
        [(ToErrors, \<lparr>row = r, field = ''startDate'',
            message = ''Start date is required'', severity = Error\<rparr>)]
      else []) @
     (if endDate e = [] then
        [(ToErrors, \<lparr>row = r, field = ''endDate'',
            message = ''End date is required'', severity = Error\<rparr>)]
      else []) @
     (if timesheetStatus e = [] then
        [(ToErrors, \<lparr>row = r, field = ''timesheetStatus'',
            message = ''Timesheet status is required'', severity = Error\<rparr>)]
      else if timesheetStatus e \<notin> set validStatuses then
        [(ToWarnings, \<lparr>row = r, field = ''timesheetStatus'',
            message = ''Unknown status '' @ [CHR 0x22] @ timesheetStatus e @ [CHR 0x22] @
              ''. Expected: '' @ join '', '' validStatuses,
            severity = Warning\<rparr>)]
      else [])"

text \<open>Date format and range validation.\<close>

definition dateChecks :: "platform \<Rightarrow> nat \<Rightarrow> TimesheetEntry \<Rightarrow> push list" where
  "dateChecks P r e =
     (if startDate e \<noteq> [] \<and> endDate e \<noteq> [] then
        (if parseDate P (startDate e) = None then
           [(ToErrors, \<lparr>row = r, field = ''startDate'',
               message = ''Invalid start date format'', severity = Error\<rparr>)]
         else []) @
        (if parseDate P (endDate e) = None then
           [(ToErrors, \<lparr>row = r, field = ''endDate'',
               message = ''Invalid end date format'', severity = Error\<rparr>)]
         else []) @
        (case (parseDate P (startDate e), parseDate P (endDate e)) of
           (Some s, Some t) \<Rightarrow>
             (if t \<le> s then
                [(ToErrors, \<lparr>row = r, field = ''endDate'',
                    message = ''End date must be after start date'', severity = Error\<rparr>)]
              else []) @
             (let daysDiff = (of_int (t - s) :: rat) / (1000 * 60 * 60 * 24) in
              if daysDiff > 14 then
                [(ToWarnings, \<lparr>row = r, field = ''endDate'',
                    message = ''Long period ('' @ numToString P (of_int (mathRound daysDiff)) @
                      '' days). Typical periods are 7-14 days'',
                    severity = Warning\<rparr>)]
              else [])
         | _ \<Rightarrow> [])
      else [])"

text \<open>Schedule hours validation.\<close>

definition scheduleChecks :: "nat \<Rightarrow> TimesheetEntry \<Rightarrow> push list" where
  "scheduleChecks r e =
     (if scheduleHours e < 0 then
        [(ToErrors, \<lparr>row = r, field = ''scheduleHours'',
            message = ''Schedule hours cannot be negative'', severity = Error\<rparr>)]
      else []) @
     (if scheduleHours e > 80 then
        [(ToWarnings, \<lparr>row = r, field = ''scheduleHours'',
            message = ''Schedule hours over 80 seems unusually high for a period'',
            severity = Warning\<rparr>)]
      else [])"

text \<open>Hours validation (negative checks): the inner \<open>forEach\<close> over \<open>hourFields\<close>.\<close>

definition hourFields :: "TimesheetEntry \<Rightarrow> (string \<times> rat) list" where
  "hourFields e =
     [(''reportedHours'', reportedHours e),
      (''regularHours'', regularHours e),
      (''overtimeHours'', overtimeHours e),
      (''holidayHours'', holidayHours e),
      (''leaveHours'', leaveHours e),
      (''totalHours'', totalHours e)]"

definition negativeChecks :: "nat \<Rightarrow> TimesheetEntry \<Rightarrow> push list" where
  "negativeChecks r e =
     concat (map (\<lambda>(f, v).
       if v < 0 then
         [(ToErrors, \<lparr>row = r, field = f,
             message = f @ '' cannot be negative'', severity = Error\<rparr>)]
       else []) (hourFields e))"

text \<open>
  VALIDATION 1: Total Hours = Regular + Overtime + Holiday + Leave. The sum is three
  binary64 additions, from the left; the difference is a binary64 subtraction, and the
  literal \<open>0.01\<close> is the binary64 nearest to 1/100.
\<close>

definition calculatedTotal :: "TimesheetEntry \<Rightarrow> jsnum" where
  "calculatedTotal e =
     add64 (add64 (add64 (Fin (regularHours e)) (Fin (overtimeHours e)))
       (Fin (holidayHours e))) (Fin (leaveHours e))"

definition totalCheck :: "platform \<Rightarrow> nat \<Rightarrow> TimesheetEntry \<Rightarrow> push list" where
  "totalCheck P r e =
     (if totalHours e > 0 then
        (let totalDiff = abs64 (sub64 (Fin (totalHours e)) (calculatedTotal e)) in
         if gt64 totalDiff (fl64 (1 / 100)) then
           [(ToErrors, \<lparr>row = r, field = ''totalHours'',
               message = ''Total hours ('' @ numToString P (totalHours e) @
                 '') doesn't match calculated total ('' @ toFixed2 P (calculatedTotal e) @ '')'',
               severity = Error\<rparr>)]
         else [])
      else [])"

text \<open>VALIDATION 2: Reported Hours \<open>\<le>\<close> Schedule Hours, with tolerance for submitted timesheets.\<close>

definition isSubmitted :: "TimesheetEntry \<Rightarrow> bool" where
  "isSubmitted e \<longleftrightarrow>
     timesheetStatus e \<in> set [''Approved'', ''Partially Approved'', ''Partially Submitted'']"

definition exceedCheck :: "platform \<Rightarrow> nat \<Rightarrow> TimesheetEntry \<Rightarrow> push list" where
  "exceedCheck P r e =
     (if reportedHours e > scheduleHours e then
        (if isSubmitted e then
           [(ToWarnings, \<lparr>row = r, field = ''reportedHours'',
               message = ''Reported hours ('' @ numToString P (reportedHours e) @
                 '') exceed schedule hours ('' @ numToString P (scheduleHours e) @ '')'',
               severity = Warning\<rparr>)]
         else
           [(ToErrors, \<lparr>row = r, field = ''reportedHours'',
               message = ''Reported hours ('' @ numToString P (reportedHours e) @
                 '') cannot exceed schedule hours ('' @ numToString P (scheduleHours e) @ '')'',
               severity = Error\<rparr>)])
      else [])"

text \<open>VALIDATION 3: Status-specific validations (the \<open>switch\<close> on the status).\<close>

definition hasHours :: "TimesheetEntry \<Rightarrow> bool" where
  "hasHours e \<longleftrightarrow>
     reportedHours e > 0 \<or> regularHours e > 0 \<or> overtimeHours e > 0 \<or>
     holidayHours e > 0 \<or> leaveHours e > 0"

definition statusChecks :: "nat \<Rightarrow> TimesheetEntry \<Rightarrow> push list" where
  "statusChecks r e =
     (if timesheetStatus e = ''Approved'' \<or> timesheetStatus e = ''Partially Approved'' then
        (if \<not> hasHours e then
           [(ToWarnings, \<lparr>row = r, field = ''timesheetStatus'',
               message = ''Approved timesheet should have hours recorded'',
               severity = Warning\<rparr>)]
         else [])
      else if timesheetStatus e = ''Not Submitted'' then
        (if hasHours e then
           [(ToWarnings, \<lparr>row = r, field = ''timesheetStatus'',
               message = ''Not submitted timesheet has hours recorded - status may be incorrect'',
               severity = Warning\<rparr>)]
         else [])
      else if timesheetStatus e = ''Absence/Holiday'' then
        (if regularHours e > 0 \<or> overtimeHours e > 0 then
           [(ToWarnings, \<lparr>row = r, field = ''timesheetStatus'',
               message = ''Absence/Holiday status should not have regular or overtime hours'',
               severity = Warning\<rparr>)]
         else [])
      else if timesheetStatus e = ''Needs Approval'' \<or>
              timesheetStatus e = ''Partially Submitted'' then
        (if \<not> hasHours e then
           [(ToWarnings, \<lparr>row = r, field = ''timesheetStatus'',
               message = ''Submitted timesheet should have hours recorded'',
               severity = Warning\<rparr>)]
         else [])
      else [])"

text \<open>
  VALIDATION 4: Additional date range validations. \<open>currentDate\<close> is the first clock
  reading of the record and \<open>yearAgo\<close> starts from the second one; the second reading
  is made only when both dates parse.
\<close>

definition recencyChecks :: "platform \<Rightarrow> int \<Rightarrow> int \<Rightarrow> nat \<Rightarrow> TimesheetEntry \<Rightarrow> push list" where
  "recencyChecks P currentDate now2 r e =
     (if startDate e \<noteq> [] \<and> endDate e \<noteq> [] then
        (case (parseDate P (startDate e), parseDate P (endDate e)) of
           (Some s, Some t) \<Rightarrow>
             (if s > currentDate then
                [(ToWarnings, \<lparr>row = r, field = ''startDate'',
                    message = ''Start date is in the future'', severity = Warning\<rparr>)]
              else []) @
             (let yearAgo = setFullYear P now2 (getFullYear P currentDate - 1) in
              if t < yearAgo then
                [(ToWarnings, \<lparr>row = r, field = ''endDate'',
                    message = ''End date is more than 1 year ago'', severity = Warning\<rparr>)]
              else [])
         | _ \<Rightarrow> [])
      else [])"

definition clockReads :: "platform \<Rightarrow> TimesheetEntry \<Rightarrow> nat" where
  "clockReads P e =
     (if startDate e \<noteq> [] \<and> endDate e \<noteq> [] then
        (case (parseDate P (startDate e), parseDate P (endDate e)) of
           (Some s, Some t) \<Rightarrow> 2
         | _ \<Rightarrow> 1)
      else 0)"

text \<open>Additional consistency checks.\<close>

definition consistencyChecks :: "nat \<Rightarrow> TimesheetEntry \<Rightarrow> push list" where
  "consistencyChecks r e =
     (if reportedHours e > 0 \<and> calculatedTotal e = Fin 0 then
        [(ToWarnings, \<lparr>row = r, field = ''reportedHours'',
            message = ''Reported hours exist but no breakdown provided (regular, overtime, holiday, leave)'',
            severity = Warning\<rparr>)]
      else []) @
     (if reportedHours e = 0 \<and> gt64 (calculatedTotal e) (Fin 0) then
        [(ToWarnings, \<lparr>row = r, field = ''reportedHours'',
            message = ''Hour breakdown provided but reported hours is zero'',
            severity = Warning\<rparr>)]
      else [])"

text \<open>The whole callback body, for the record at row \<open>r\<close>.\<close>

definition checkEntry :: "platform \<Rightarrow> int \<Rightarrow> int \<Rightarrow> nat \<Rightarrow> TimesheetEntry \<Rightarrow> push list" where
  "checkEntry P currentDate now2 r e =
     requiredChecks r e @ dateChecks P r e @ scheduleChecks r e @ negativeChecks r e @
     totalCheck P r e @ exceedCheck P r e @ statusChecks r e @
     recencyChecks P currentDate now2 r e @ consistencyChecks r e"

definition pushedTo :: "sink \<Rightarrow> push list \<Rightarrow> ValidationError list" where
  "pushedTo a ps = map snd (filter (\<lambda>p. fst p = a) ps)"

text \<open>
  \<open>entries.forEach((entry, index) => ...)\<close>: the state is the two arrays and the number
  of clock readings made so far.
\<close>

fun forEachEntry ::
  "platform \<Rightarrow> clock \<Rightarrow> nat \<Rightarrow> TimesheetEntry list \<Rightarrow>
   ValidationError list \<times> ValidationError list \<times> nat \<Rightarrow>
   ValidationError list \<times> ValidationError list \<times> nat" where
  "forEachEntry P clk index [] st = st"
| "forEachEntry P clk index (entry # rest) (errs, warns, k) =
     (let ps = checkEntry P (clk k) (clk (Suc k)) (index + 1) entry in
      forEachEntry P clk (Suc index) rest
        (errs @ pushedTo ToErrors ps, warns @ pushedTo ToWarnings ps, k + clockReads P entry))"

definition validateTimesheet ::
  "platform \<Rightarrow> clock \<Rightarrow> TimesheetEntry list \<Rightarrow> nat \<Rightarrow> ValidationResult \<times> nat" where
  "validateTimesheet P clk entries k =
     (case forEachEntry P clk 0 entries ([], [], k) of
        (errs, warns, k') \<Rightarrow>
          (\<lparr>isValid = (length errs = 0), errors = errs, warnings = warns\<rparr>, k'))"

text \<open>\<open>getRowErrors\<close> and \<open>getRowWarnings\<close> of TimesheetTable.tsx.\<close>

definition getRowErrors :: "ValidationError list \<Rightarrow> nat \<Rightarrow> ValidationError list" where
  "getRowErrors errs index = filter (\<lambda>error. row error = index + 1) errs"

definition getRowWarnings :: "ValidationError list \<Rightarrow> nat \<Rightarrow> ValidationError list" where
  "getRowWarnings warns index = filter (\<lambda>warning. row warning = index + 1) warns"

text \<open>
  Validating twice in a row: the second run starts from the clock state the first one
  leaves behind, and sees the same, unchanged, records.
\<close>

definition validateTwice ::
  "platform \<Rightarrow> clock \<Rightarrow> TimesheetEntry list \<Rightarrow> nat \<Rightarrow> ValidationResult \<times> ValidationResult" where
  "validateTwice P clk entries k =
     (case validateTimesheet P clk entries k of
        (first, k1) \<Rightarrow>
          (case validateTimesheet P clk entries k1 of
             (second, k2) \<Rightarrow> (first, second)))"

section \<open>The parser (utils/csvParser.ts)\<close>

text \<open>
  \<open>String.prototype.trim\<close> and \<open>toLowerCase\<close> as they act on ASCII strings: the
  white space removed is tab, line feed, vertical tab, form feed, carriage return and
  space, and the letters lowered are A to Z. On a string with other characters (a
  no-break space, a letter outside ASCII) JavaScript does more than these definitions,
  so the properties of the parser are stated for ASCII strings (\<open>isAscii\<close>: every
  character is below 128).
\<close>

definition isWhiteSpace :: "char \<Rightarrow> bool" where
  "isWhiteSpace c \<longleftrightarrow>
     c \<in> set [CHR 0x09, CHR 0x0A, CHR 0x0B, CHR 0x0C, CHR 0x0D, CHR '' '']"

definition isAscii :: "string \<Rightarrow> bool" where
  "isAscii s \<longleftrightarrow> list_all (\<lambda>c. \<not> digit7 c) s"

definition trim :: "string \<Rightarrow> string" where
  "trim s = rev (dropWhile isWhiteSpace (rev (dropWhile isWhiteSpace s)))"

definition toLowerCase :: "string \<Rightarrow> string" where
  "toLowerCase s =
     map (\<lambda>c. case map_of (zip ''ABCDEFGHIJKLMNOPQRSTUVWXYZ'' ''abcdefghijklmnopqrstuvwxyz'') c of
                 Some l \<Rightarrow> l
               | None \<Rightarrow> c) s"

text \<open>
  \<open>transformHeader\<close>. Every value of \<open>headerMap\<close> is a non-empty string, so
  \<open>headerMap[normalizedHeader] || header\<close> falls back to the header exactly when the
  lookup finds nothing. In JavaScript the lookup also finds what the object literal
  inherits; \<open>constructor\<close> and \<open>__proto__\<close> are the inherited names that a lower-cased
  header can equal, and for them the code returns an object, not a name. An ordinary
  header is an ASCII header that does not normalize to one of them: on ordinary headers
  \<open>transformHeader\<close> is the code's function.
\<close>

definition headerMap :: "(string \<times> string) list" where
  "headerMap =
     [(''empl id'', ''employeeId''),
      (''employee id'', ''employeeId''),
      (''employee_id'', ''employeeId''),
      (''id'', ''employeeId''),
      (''start date'', ''startDate''),
      (''start_date'', ''startDate''),
      (''startdate'', ''startDate''),
      (''end date'', ''endDate''),
      (''end_date'', ''endDate''),
      (''enddate'', ''endDate''),
      (''timesheet status'', ''timesheetStatus''),
      (''timesheet_status'', ''timesheetStatus''),
      (''status'', ''timesheetStatus''),
      (''schedule hours'', ''scheduleHours''),
      (''schedule_hours'', ''scheduleHours''),
      (''scheduled hours'', ''scheduleHours''),
      (''scheduled_hours'', ''scheduleHours''),
      (''reported hours'', ''reportedHours''),
      (''reported_hours'', ''reportedHours''),
      (''regular hours'', ''regularHours''),
      (''regular_hours'', ''regularHours''),
      (''overtime hours'', ''overtimeHours''),
      (''overtime_hours'', ''overtimeHours''),
      (''holiday hours'', ''holidayHours''),
      (''holiday_hours'', ''holidayHours''),
      (''leave hours'', ''leaveHours''),
      (''leave_hours'', ''leaveHours''),
      (''total hours'', ''totalHours''),
      (''total_hours'', ''totalHours'')]"

definition transformHeader :: "string \<Rightarrow> string" where
  "transformHeader header =
     (let normalizedHeader = trim (toLowerCase header) in
      case map_of headerMap normalizedHeader of
        Some canonical \<Rightarrow> canonical
      | None \<Rightarrow> header)"

definition inheritedKeys :: "string list" where
  "inheritedKeys = [''constructor'', ''__proto__'']"

definition ordinaryHeader :: "string \<Rightarrow> bool" where
  "ordinaryHeader header \<longleftrightarrow>
     isAscii header \<and> trim (toLowerCase header) \<notin> set inheritedKeys"

text \<open>\<open>transform\<close>: numeric fields are kept as strings here and converted afterwards.\<close>

definition numericFields :: "string list" where
  "numericFields =
     [''scheduleHours'', ''reportedHours'', ''regularHours'', ''overtimeHours'',
      ''holidayHours'', ''leaveHours'', ''totalHours'']"

definition transform :: "platform \<Rightarrow> string \<Rightarrow> string \<Rightarrow> string" where
  "transform P val fieldStr =
     (if fieldStr \<in> set numericFields then
        (if val = [] \<or> trim val = [] then ''0''
         else (case parseFloat P val of
                 None \<Rightarrow> ''0''
               | Some parsed \<Rightarrow> trim val))
      else trim val)"

text \<open>
  \<open>Papa.parse\<close> belongs to the PapaParse library. Its reading of the text is a
  parameter of the model: a reader either fails to read the file (the \<open>error\<close>
  callback) or completes with the cells of the header line, the cells of every other
  non-empty line, and the messages of the errors it reports. With \<open>header: true\<close>
  the library names the columns by the transformed headers and stores, for each row,
  the transformed cell of each column under that name, as \<open>papaData\<close> does; the
  properties below are stated for rows whose columns have distinct names.
\<close>

record papaRaw =
  rawFields :: "string list"
  rawRows :: "string list list"
  rawErrors :: "string list"

datatype readOutcome = ReadFailed string | ReadComplete papaRaw

type_synonym reader = "string \<Rightarrow> readOutcome"

definition rowObject :: "platform \<Rightarrow> string list \<Rightarrow> string list \<Rightarrow> (string \<rightharpoonup> string)" where
  "rowObject P columns cells =
     fold (\<lambda>(f, v) obj. obj(f \<mapsto> transform P v f)) (zip columns cells) Map.empty"

definition papaData :: "platform \<Rightarrow> papaRaw \<Rightarrow> (string \<rightharpoonup> string) list" where
  "papaData P raw =
     (let columns = map transformHeader (rawFields raw) in
      map (rowObject P columns) (rawRows raw))"

text \<open>
  The \<open>complete\<close> callback. A processed record is a JavaScript object: a map from
  property names to strings and numbers. \<open>parseFloat(entry.k) || 0\<close> is \<open>numberOf\<close>:
  a missing property is \<open>undefined\<close>, which \<open>parseFloat\<close> turns into \<open>NaN\<close>.
\<close>

datatype jsval = Str string | Num rat

definition orZero :: "rat option \<Rightarrow> rat" where
  "orZero x = (case x of None \<Rightarrow> 0 | Some v \<Rightarrow> if v = 0 then 0 else v)"

definition numberOf :: "platform \<Rightarrow> (string \<rightharpoonup> string) \<Rightarrow> string \<Rightarrow> rat" where
  "numberOf P entry k =
     orZero (case entry k of None \<Rightarrow> None | Some s \<Rightarrow> parseFloat P s)"

definition postProcess :: "platform \<Rightarrow> (string \<rightharpoonup> string) \<Rightarrow> (string \<rightharpoonup> jsval)" where
  "postProcess P entry =
     (map_option Str \<circ> entry)
       (''scheduleHours'' \<mapsto> Num (numberOf P entry ''scheduleHours''),
        ''reportedHours'' \<mapsto> Num (numberOf P entry ''reportedHours''),
        ''regularHours'' \<mapsto> Num (numberOf P entry ''regularHours''),
        ''overtimeHours'' \<mapsto> Num (numberOf P entry ''overtimeHours''),
        ''holidayHours'' \<mapsto> Num (numberOf P entry ''holidayHours''),
        ''leaveHours'' \<mapsto> Num (numberOf P entry ''leaveHours''),
        ''totalHours'' \<mapsto> Num (numberOf P entry ''totalHours''))"

text \<open>
  \<open>parseCSV\<close>: the promise is rejected (\<open>Inl\<close>, with the error message) or resolved
  (\<open>Inr\<close>, with the processed records).
\<close>

definition parseCSV :: "platform \<Rightarrow> reader \<Rightarrow> string \<Rightarrow> string + (string \<rightharpoonup> jsval) list" where
  "parseCSV P read file =
     (case read file of
        ReadFailed error \<Rightarrow> Inl error
      | ReadComplete raw \<Rightarrow>
          (if length (rawErrors raw) > 0 then
             Inl (''CSV parsing error: '' @ hd (rawErrors raw))
           else Inr (map (postProcess P) (papaData P raw))))"

text \<open>
  The cast \<open>processedData as TimesheetEntry[]\<close>: consumers read the eleven properties
  of the interface. A missing string property reads as the empty string (see above).
\<close>

definition strProp :: "(string \<rightharpoonup> jsval) \<Rightarrow> string \<Rightarrow> string" where
  "strProp obj k = (case obj k of Some (Str s) \<Rightarrow> s | _ \<Rightarrow> [])"

definition numProp :: "(string \<rightharpoonup> jsval) \<Rightarrow> string \<Rightarrow> rat" where
  "numProp obj k = (case obj k of Some (Num n) \<Rightarrow> n | _ \<Rightarrow> 0)"

definition asEntry :: "(string \<rightharpoonup> jsval) \<Rightarrow> TimesheetEntry" where
  "asEntry obj =
     \<lparr>employeeId = strProp obj ''employeeId'',
      startDate = strProp obj ''startDate'',
      endDate = strProp obj ''endDate'',
      timesheetStatus = strProp obj ''timesheetStatus'',
      scheduleHours = numProp obj ''scheduleHours'',
      reportedHours = numProp obj ''reportedHours'',
      regularHours = numProp obj ''regularHours'',
      overtimeHours = numProp obj ''overtimeHours'',
      holidayHours = numProp obj ''holidayHours'',
      leaveHours = numProp obj ''leaveHours'',
      totalHours = numProp obj ''totalHours''\<rparr>"

section \<open>The export serializer (components/TimesheetTable.tsx)\<close>

text \<open>
  The table exports \<open>sortedEntries\<close>: the entries sorted by the column and direction
  of its state (initially \<open>startDate\<close>, ascending). \<open>a[sortField]\<close> reads a property
  of the entry; \<open><\<close> compares two strings by their characters and two numbers by
  value. \<open>Array.prototype.sort\<close> is stable; it is modelled by insertion.
\<close>

datatype sortDirection = Asc | Desc

definition toObject :: "TimesheetEntry \<Rightarrow> (string \<rightharpoonup> jsval)" where
  "toObject e =
     [''employeeId'' \<mapsto> Str (employeeId e),
      ''startDate'' \<mapsto> Str (startDate e),
      ''endDate'' \<mapsto> Str (endDate e),
      ''timesheetStatus'' \<mapsto> Str (timesheetStatus e),
      ''scheduleHours'' \<mapsto> Num (scheduleHours e),
      ''reportedHours'' \<mapsto> Num (reportedHours e),
      ''regularHours'' \<mapsto> Num (regularHours e),
      ''overtimeHours'' \<mapsto> Num (overtimeHours e),
      ''holidayHours'' \<mapsto> Num (holidayHours e),
      ''leaveHours'' \<mapsto> Num (leaveHours e),
      ''totalHours'' \<mapsto> Num (totalHours e)]"

fun strLess :: "string \<Rightarrow> string \<Rightarrow> bool" where
  "strLess [] [] = False"
| "strLess [] (y # ys) = True"
| "strLess (x # xs) [] = False"
| "strLess (x # xs) (y # ys) =
     ((of_char x :: nat) < of_char y \<or> (x = y \<and> strLess xs ys))"

fun jsLess :: "jsval option \<Rightarrow> jsval option \<Rightarrow> bool" where
  "jsLess (Some (Str a)) (Some (Str b)) = strLess a b"
| "jsLess (Some (Num a)) (Some (Num b)) = (a < b)"
| "jsLess _ _ = False"

definition compareEntries ::
  "string \<Rightarrow> sortDirection \<Rightarrow> TimesheetEntry \<Rightarrow> TimesheetEntry \<Rightarrow> int" where
  "compareEntries sortField sortDir a b =
     (let aValue = toObject a sortField; bValue = toObject b sortField in
      if jsLess aValue bValue then (if sortDir = Asc then - 1 else 1)
      else if jsLess bValue aValue then (if sortDir = Asc then 1 else - 1)
      else 0)"

fun insertSorted :: "('a \<Rightarrow> 'a \<Rightarrow> int) \<Rightarrow> 'a \<Rightarrow> 'a list \<Rightarrow> 'a list" where
  "insertSorted cmp x [] = [x]"
| "insertSorted cmp x (y # ys) =
     (if cmp x y \<le> 0 then x # y # ys else y # insertSorted cmp x ys)"

definition sortedEntries ::
  "string \<Rightarrow> sortDirection \<Rightarrow> TimesheetEntry list \<Rightarrow> TimesheetEntry list" where
  "sortedEntries sortField sortDir entries =
     foldr (insertSorted (compareEntries sortField sortDir)) entries []"

definition exportHeaders :: "string list" where
  "exportHeaders =
     [''Employee ID'', ''Start Date'', ''End Date'', ''Timesheet Status'', ''Schedule Hours'',
      ''Reported Hours'', ''Regular Hours'', ''Overtime Hours'', ''Holiday Hours'',
      ''Leave Hours'', ''Total Hours'']"

definition exportLine :: "platform \<Rightarrow> TimesheetEntry \<Rightarrow> string" where
  "exportLine P entry =
     join '','' [employeeId entry, startDate entry, endDate entry,
       [CHR 0x22] @ timesheetStatus entry @ [CHR 0x22],
       numToString P (scheduleHours entry), numToString P (reportedHours entry),
       numToString P (regularHours entry), numToString P (overtimeHours entry),
       numToString P (holidayHours entry), numToString P (leaveHours entry),
       numToString P (totalHours entry)]"

definition exportToCSV ::
  "platform \<Rightarrow> string \<Rightarrow> sortDirection \<Rightarrow> TimesheetEntry list \<Rightarrow> string" where
  "exportToCSV P sortField sortDir entries =
     join [CHR 0x0A]
       (join '','' exportHeaders # map (exportLine P) (sortedEntries sortField sortDir entries))"

text \<open>
  \<open>parseCSV\<close> at the type the source gives it, \<open>Promise<TimesheetEntry[]>\<close>.
\<close>

definition parseEntries :: "platform \<Rightarrow> reader \<Rightarrow> string \<Rightarrow> string + TimesheetEntry list" where
  "parseEntries P read file =
     (case parseCSV P read file of
        Inl error \<Rightarrow> Inl error
      | Inr records \<Rightarrow> Inr (map asEntry records))"

text \<open>
  The cells of a serialized record as a reader of delimited text returns them: the
  columns of the line, the status without its quotes.
\<close>

definition exportCells :: "platform \<Rightarrow> TimesheetEntry \<Rightarrow> string list" where
  "exportCells P entry =
     [employeeId entry, startDate entry, endDate entry, timesheetStatus entry,
      numToString P (scheduleHours entry), numToString P (reportedHours entry),
      numToString P (regularHours entry), numToString P (overtimeHours entry),
      numToString P (holidayHours entry), numToString P (leaveHours entry),
      numToString P (totalHours entry)]"

text \<open>
  A text is clean when it is a non-empty ASCII string without surrounding white space.
  A number prints back when its text is clean and is read by \<open>parseFloat\<close> as the
  number itself. A record is clean when its four strings are clean and its numbers
  print back. (A record whose string property is \<open>undefined\<close> is read here as one with
  the empty string, but the export prints \<open>undefined\<close> for a missing status: clean
  records have every string present.)
\<close>

definition cleanText :: "string \<Rightarrow> bool" where
  "cleanText s \<longleftrightarrow> s \<noteq> [] \<and> isAscii s \<and> trim s = s"

definition printsBack :: "platform \<Rightarrow> rat \<Rightarrow> bool" where
  "printsBack P x \<longleftrightarrow>
     cleanText (numToString P x) \<and> parseFloat P (numToString P x) = Some x"

definition cleanEntry :: "platform \<Rightarrow> TimesheetEntry \<Rightarrow> bool" where
  "cleanEntry P e \<longleftrightarrow>
     cleanText (employeeId e) \<and> cleanText (startDate e) \<and>
     cleanText (endDate e) \<and> cleanText (timesheetStatus e) \<and>
     printsBack P (scheduleHours e) \<and> printsBack P (reportedHours e) \<and>
     printsBack P (regularHours e) \<and> printsBack P (overtimeHours e) \<and>
     printsBack P (holidayHours e) \<and> printsBack P (leaveHours e) \<and>
     printsBack P (totalHours e)"

section \<open>Naming the findings\<close>

text \<open>
  Findings carry no tag but their field and message. A finding is recognised by its
  field and by the fixed text its message starts with.
\<close>

definition onField :: "string \<Rightarrow> ValidationError \<Rightarrow> bool" where
  "onField name f \<longleftrightarrow> field f = name"

definition isExceedFinding :: "ValidationError \<Rightarrow> bool" where
  "isExceedFinding f \<longleftrightarrow>
     field f = ''reportedHours'' \<and> prefix ''Reported hours ('' (message f)"


definition isLongPeriod :: "ValidationError \<Rightarrow> bool" where
  "isLongPeriod f \<longleftrightarrow>
     field f = ''endDate'' \<and> prefix ''Long period ('' (message f)"

section \<open>Auxiliary notions for the proofs\<close>

text \<open>
  All pushes of a run, in order: the pushes of each record, with the clock readings the
  loop hands to it. \<open>tickAt\<close> is the number of clock readings made before record \<open>j\<close>.
\<close>

fun allPushes :: "platform \<Rightarrow> clock \<Rightarrow> nat \<Rightarrow> TimesheetEntry list \<Rightarrow> nat \<Rightarrow> push list" where
  "allPushes P clk index [] k = []"
| "allPushes P clk index (e # es) k =
     checkEntry P (clk k) (clk (Suc k)) (index + 1) e @
     allPushes P clk (Suc index) es (k + clockReads P e)"

definition tickAt :: "platform \<Rightarrow> TimesheetEntry list \<Rightarrow> nat \<Rightarrow> nat \<Rightarrow> nat" where
  "tickAt P es k j = k + sum_list (map (clockReads P) (take j es))"

text \<open>A push is well-tagged when the severity of the object agrees with its array.\<close>

definition severityMatches :: "push \<Rightarrow> bool" where
  "severityMatches p \<longleftrightarrow>
     (case fst p of
        ToErrors \<Rightarrow> severity (snd p) = Error
      | ToWarnings \<Rightarrow> severity (snd p) = Warning)"

section \<open>A sample platform\<close>

text \<open>
  The values a JavaScript engine running in UTC gives at the inputs of the examples
  below: ISO dates of 2024, the numbers printed in messages, and a clock that stands
  at 2024-06-10T00:00:00Z.
\<close>

definition sampleParseDate :: "string \<Rightarrow> int option" where
  "sampleParseDate =
     map_of [(''2024-01-01'', 1704067200000), (''2024-01-08'', 1704672000000),
             (''2024-01-15'', 1705276800000), (''2024-01-16'', 1705363200000)]"

definition sampleNumToString :: "rat \<Rightarrow> string" where
  "sampleNumToString x =
     (case map_of [(0, ''0''), (8, ''8''), (15, ''15''), (40, ''40''), (50, ''50''),
                   (5632314283980227 / 140737488355328, ''40.02''),
                   (5630906909096673 / 140737488355328, ''40.01''),
                   (4548635623644201 / 4503599627370496, ''1.01'')] x of
        Some s \<Rightarrow> s
      | None \<Rightarrow> ''?'')"

definition sampleToFixed2 :: "jsnum \<Rightarrow> string" where
  "sampleToFixed2 x =
     (case map_of [(Fin 0, ''0.00''), (Fin 1, ''1.00''), (Fin 8, ''8.00''), (Fin 40, ''40.00''),
                   (Fin 50, ''50.00'')] x of
        Some s \<Rightarrow> s
      | None \<Rightarrow> ''?'')"

definition sampleParseFloat :: "string \<Rightarrow> rat option" where
  "sampleParseFloat s =
     map_of [(''0'', 0), (''8'', 8), (''40'', 40), (''50'', 50),
             (''40.02'', 5632314283980227 / 140737488355328)]
       (trim s)"

definition samplePlatform :: platform where
  "samplePlatform =
     \<lparr>parseFloat = sampleParseFloat,
      parseDate = sampleParseDate,
      numToString = sampleNumToString,
      toFixed2 = sampleToFixed2,
      getFullYear = (\<lambda>t. if t = 1717977600000 then 2024 else 1970),
      setFullYear = (\<lambda>t y. if t = 1717977600000 \<and> y = 2023 then 1686355200000 else t)\<rparr>"

definition sampleClock :: clock where
  "sampleClock = (\<lambda>n. 1717977600000)"

text \<open>Scenario A of the specification: a clean approved week.\<close>

definition scenarioA :: TimesheetEntry where
  "scenarioA =
     \<lparr>employeeId = ''E1'', startDate = ''2024-01-01'', endDate = ''2024-01-08'',
      timesheetStatus = ''Approved'', scheduleHours = 40, reportedHours = 40,
      regularHours = 40, overtimeHours = 0, holidayHours = 0, leaveHours = 0,
      totalHours = 40\<rparr>"

text \<open>
  Scenario D: reported hours above schedule hours on an approved timesheet.
  Scenario E: the same record awaiting approval.
\<close>

definition scenarioD :: TimesheetEntry where
  "scenarioD = scenarioA\<lparr>reportedHours := 50\<rparr>"

definition scenarioE :: TimesheetEntry where
  "scenarioE = scenarioD\<lparr>timesheetStatus := ''Needs Approval''\<rparr>"

text \<open>An approved record that reports 50 hours against 40 and gives no breakdown.\<close>

definition reportedOnly :: TimesheetEntry where
  "reportedOnly =
     \<lparr>employeeId = ''E2'', startDate = ''2024-01-01'', endDate = ''2024-01-08'',
      timesheetStatus = ''Approved'', scheduleHours = 40, reportedHours = 50,
      regularHours = 0, overtimeHours = 0, holidayHours = 0, leaveHours = 0,
      totalHours = 0\<rparr>"





text \<open>Periods of exactly 14 and of 15 days.\<close>

definition fourteenDays :: TimesheetEntry where
  "fourteenDays = scenarioA\<lparr>endDate := ''2024-01-15''\<rparr>"

definition fifteenDays :: TimesheetEntry where
  "fifteenDays = scenarioA\<lparr>endDate := ''2024-01-16''\<rparr>"

text \<open>Absence records with negative, positive and zero regular hours.\<close>

definition absenceNegative :: TimesheetEntry where
  "absenceNegative =
     \<lparr>employeeId = ''E3'', startDate = ''2024-01-01'', endDate = ''2024-01-08'',
      timesheetStatus = ''Absence/Holiday'', scheduleHours = 40, reportedHours = 0,
      regularHours = - 1, overtimeHours = 0, holidayHours = 0, leaveHours = 0,
      totalHours = 0\<rparr>"

definition absenceWorked :: TimesheetEntry where
  "absenceWorked = absenceNegative\<lparr>regularHours := 8\<rparr>"

definition absenceClean :: TimesheetEntry where
  "absenceClean = absenceNegative\<lparr>regularHours := 0\<rparr>"

section \<open>A sample reader\<close>

text \<open>
  A reader for comma-separated text whose cells hold no comma, line break or inner
  quote: it stands in for PapaParse in the examples. Lines are split at line feeds and
  empty lines skipped, cells are split at commas, and a cell in double quotes loses
  them. A row with the wrong number of cells is reported as an error.
\<close>

fun splitOn :: "char \<Rightarrow> string \<Rightarrow> string list" where
  "splitOn d [] = [[]]"
| "splitOn d (c # cs) =
     (if c = d then [] # splitOn d cs
      else (case splitOn d cs of
              w # ws \<Rightarrow> (c # w) # ws
            | [] \<Rightarrow> [[c]]))"

definition unquote :: "string \<Rightarrow> string" where
  "unquote cell =
     (if 2 \<le> length cell \<and> hd cell = CHR 0x22 \<and> last cell = CHR 0x22
      then butlast (tl cell) else cell)"

definition cellsOf :: "string \<Rightarrow> string list" where
  "cellsOf line = map unquote (splitOn (CHR '','') line)"

definition simpleReader :: reader where
  "simpleReader text =
     (case filter (\<lambda>line. line \<noteq> []) (splitOn (CHR 0x0A) text) of
        [] \<Rightarrow> ReadComplete \<lparr>rawFields = [], rawRows = [], rawErrors = []\<rparr>
      | header # rest \<Rightarrow>
          ReadComplete
            \<lparr>rawFields = cellsOf header,
             rawRows = map cellsOf rest,
             rawErrors =
               concat (map (\<lambda>line.
                 if length (cellsOf line) < length (cellsOf header) then [''Too few fields'']
                 else if length (cellsOf line) > length (cellsOf header) then [''Too many fields'']
                 else []) rest)\<rparr>)"

text \<open>
  The sample reader returns the cells of a serialized record when they are plain: free
  of commas, line feeds and double quotes.
\<close>

definition plainCell :: "string \<Rightarrow> bool" where
  "plainCell c \<longleftrightarrow> CHR '','' \<notin> set c \<and> CHR 0x0A \<notin> set c \<and> CHR 0x22 \<notin> set c"

definition plainEntry :: "platform \<Rightarrow> TimesheetEntry \<Rightarrow> bool" where
  "plainEntry P e \<longleftrightarrow> list_all plainCell (exportCells P e)"

text \<open>An uploaded file with padded, blank and non-numeric cells, and one with a short row.\<close>

definition sampleFile :: string where
  "sampleFile =
     ''Empl ID, Start Date ,status,Schedule Hours,reported_hours,Total Hours,Notes'' @ [CHR 0x0A] @
     '' E7 ,2024-01-01,Approved, 40 ,  ,n/a,  late  '' @ [CHR 0x0A] @
     ''E8,2024-01-08,Not Submitted,8,0,abc,'' @ [CHR 0x0A]"

definition brokenFile :: string where
  "brokenFile =
     ''Empl ID,Start Date,Status'' @ [CHR 0x0A] @
     ''E7,2024-01-01,Approved'' @ [CHR 0x0A] @
     ''E8,2024-01-08'' @ [CHR 0x0A]"

text \<open>Two clean weeks of one employee, the later one first.\<close>

definition weekOne :: TimesheetEntry where
  "weekOne = scenarioA"

definition weekTwo :: TimesheetEntry where
  "weekTwo = scenarioA\<lparr>startDate := ''2024-01-08'', endDate := ''2024-01-15''\<rparr>"

section \<open>Binary64 rounding\<close>

lemma two_powi_less_iff: "(2::rat) powi a < 2 powi b \<longleftrightarrow> a < b"
proof
  assume "(2::rat) powi a < 2 powi b"
  show "a < b"
  proof (rule ccontr)
    assume "\<not> a < b"
    then have "b \<le> a" by simp
    then have "(2::rat) powi b \<le> 2 powi a" by (intro power_int_increasing) simp_all
    with \<open>(2::rat) powi a < 2 powi b\<close> show False by simp
  qed
next
  assume "a < b"
  then show "(2::rat) powi a < 2 powi b" by (intro power_int_strict_increasing) simp_all
qed

lemma two_powi_le_iff: "(2::rat) powi a \<le> 2 powi b \<longleftrightarrow> a \<le> b"
  using two_powi_less_iff [of b a] by (simp add: not_less [symmetric])

lemma ilog2_bounds:
  assumes "0 < q"
  shows "2 powi (ilog2 q) \<le> q" and "q < 2 powi (ilog2 q + 1)"
proof -
  have "2 powi (ilog2 q) \<le> q \<and> q < 2 powi (ilog2 q + 1)"
  proof (cases "1 \<le> q")
    case True
    define n where "n = \<lfloor>q\<rfloor>"
    have n: "1 \<le> n" using True by (simp add: n_def le_floor_iff)
    then have pos: "0 < n" by simp
    have len: "1 \<le> bitlen n"
      using bitlen_eq_zero_iff [of n] bitlen_nonneg [of n] pos by linarith
    have il: "ilog2 q = bitlen n - 1" using True by (simp add: ilog2_def n_def)
    from bitlen_bounds [OF pos]
    have lo: "2 ^ nat (bitlen n - 1) \<le> n" and hi: "n < 2 ^ nat (bitlen n)" by simp_all
    have "(2::rat) powi (bitlen n - 1) = of_int (2 ^ nat (bitlen n - 1))"
      using len by (simp add: power_int_nonneg_exp)
    also have "\<dots> \<le> of_int n" using lo by (simp only: of_int_le_iff)
    also have "\<dots> \<le> q" by (simp add: n_def)
    finally have A: "2 powi (ilog2 q) \<le> q" by (simp add: il)
    have "q < of_int (n + 1)" unfolding n_def using floor_correct [of q] by simp
    also have "\<dots> \<le> of_int (2 ^ nat (bitlen n))" using hi by (simp only: of_int_le_iff)
    also have "\<dots> = (2::rat) powi (bitlen n)"
      using len by (simp add: power_int_nonneg_exp)
    finally have B: "q < 2 powi (ilog2 q + 1)" by (simp add: il)
    from A B show ?thesis by simp
  next
    case False
    then have q1: "q < 1" by simp
    define c where "c = \<lceil>1 / q\<rceil>"
    have "1 < 1 / q" using assms q1 by (simp add: field_simps)
    then have c2: "1 < c" by (simp add: c_def less_ceiling_iff)
    then have pos: "0 < c - 1" by simp
    define m where "m = bitlen (c - 1)"
    have len: "1 \<le> m"
      using bitlen_eq_zero_iff [of "c - 1"] bitlen_nonneg [of "c - 1"] pos
      unfolding m_def by linarith
    have il: "ilog2 q = - m" using False by (simp add: ilog2_def c_def m_def)
    from bitlen_bounds [OF pos]
    have lo: "2 ^ nat (m - 1) \<le> c - 1" and hi: "c - 1 < 2 ^ nat m" by (simp_all add: m_def)
    have "1 / q \<le> of_int c" by (simp add: c_def)
    also have "\<dots> \<le> of_int (2 ^ nat m)" using hi by (simp only: of_int_le_iff)
    also have "\<dots> = (2::rat) powi m" using len by (simp add: power_int_nonneg_exp)
    finally have "1 / q \<le> 2 powi m" .
    then have "1 / 2 powi m \<le> q" using assms by (simp add: field_simps)
    then have A: "2 powi (ilog2 q) \<le> q" by (simp add: il power_int_minus_divide)
    have "(2::rat) powi (m - 1) = of_int (2 ^ nat (m - 1))"
      using len by (simp add: power_int_nonneg_exp)
    also have "\<dots> \<le> of_int (c - 1)" using lo by (simp only: of_int_le_iff)
    also have "\<dots> < 1 / q" unfolding c_def using ceiling_correct [of "1 / q"] by simp
    finally have "(2::rat) powi (m - 1) < 1 / q" .
    then have "q < 1 / 2 powi (m - 1)" using assms by (simp add: field_simps)
    also have "\<dots> = 2 powi (- (m - 1))" by (simp only: power_int_minus_divide)
    finally have B: "q < 2 powi (ilog2 q + 1)" by (simp add: il)
    from A B show ?thesis by simp
  qed
  then show "2 powi (ilog2 q) \<le> q" and "q < 2 powi (ilog2 q + 1)" by simp_all
qed

lemma ilog2_unique:
  assumes "2 powi e \<le> q" and "q < 2 powi (e + 1)"
  shows "ilog2 q = e"
proof -
  have "0 < (2::rat) powi e" by simp
  then have pos: "0 < q" using assms(1) by (rule less_le_trans)
  from ilog2_bounds [OF pos] assms
  have "(2::rat) powi e < 2 powi (ilog2 q + 1)" and "(2::rat) powi (ilog2 q) < 2 powi (e + 1)"
    by simp_all
  then show ?thesis by (simp add: two_powi_less_iff)
qed

lemma roundHalfEven_of_int: "roundHalfEven (of_int k) = k"
  by (simp add: roundHalfEven_def)




lemma roundPos_exact:
  assumes "0 < m" and "m < 2 ^ 53" and "- 1074 \<le> e" and "e \<le> 971"
  shows "roundPos (of_int m * 2 powi e) = Fin (of_int m * 2 powi e)"
proof -
  define q :: rat where "q = of_int m * 2 powi e"
  define E where "E = max (ilog2 q) (- 1022)"
  have pos: "0 < q" using assms(1) by (simp add: q_def)
  have "q < of_int (2 ^ 53) * 2 powi e"
    unfolding q_def using assms(2) by (intro mult_strict_right_mono) (simp_all only: of_int_less_iff zero_less_power_int zero_less_numeral)
  also have "\<dots> = 2 powi (53 + e)" by (simp add: power_int_add)
  finally have top: "q < 2 powi (53 + e)" .
  with ilog2_bounds(1) [OF pos] have "(2::rat) powi (ilog2 q) < 2 powi (53 + e)" by simp
  then have "ilog2 q < 53 + e" by (simp only: two_powi_less_iff)
  then have d: "0 \<le> e - (E - 52)" using assms(3) by (simp add: E_def)
  have "q / 2 powi (E - 52) = of_int m * 2 powi (e - (E - 52))"
    by (simp add: q_def power_int_diff)
  also have "\<dots> = of_int (m * 2 ^ nat (e - (E - 52)))"
    using d by (simp add: power_int_nonneg_exp)
  finally have n: "q / 2 powi (E - 52) = of_int (m * 2 ^ nat (e - (E - 52)))" .
  have y: "of_int (roundHalfEven (q / 2 powi (E - 52))) * 2 powi (E - 52) = q"
    unfolding n roundHalfEven_of_int using n by (simp add: field_simps)
  have "(2::rat) powi (53 + e) \<le> 2 powi 1024"
    using assms(4) by (simp only: two_powi_le_iff)
  with top have "q < 2 ^ 1024" by simp
  then show ?thesis
    unfolding q_def [symmetric] roundPos_def Let_def E_def [symmetric] y by simp
qed

lemma fl64_exact:
  assumes "\<bar>m\<bar> < 2 ^ 53" and "- 1074 \<le> e" and "e \<le> 971"
  shows "fl64 (of_int m * 2 powi e) = Fin (of_int m * 2 powi e)"
proof -
  consider "m = 0" | "0 < m" | "m < 0" by linarith
  then show ?thesis
  proof cases
    case 1
    then show ?thesis by (simp add: fl64_def)
  next
    case 2
    then have "m < 2 ^ 53" using assms(1) by simp
    from roundPos_exact [OF 2 this assms(2,3)] 2 show ?thesis
      by (simp add: fl64_def zero_less_mult_iff)
  next
    case 3
    then have "0 < - m" and "- m < 2 ^ 53" using assms(1) by simp_all
    from roundPos_exact [OF this assms(2,3)]
    have r: "roundPos (- (of_int m * 2 powi e)) = Fin (- (of_int m * 2 powi e))" by simp
    have "rat_of_int m * 2 powi e < 0" using 3 by (intro mult_neg_pos) simp_all
    then show ?thesis by (simp add: fl64_def r)
  qed
qed




lemma floor_rat_numeral: "\<lfloor>(numeral a :: rat) / numeral b\<rfloor> = numeral a div numeral b"
  using floor_divide_of_int_eq [where ?'a = rat, of "numeral a" "numeral b"] by simp

lemma fl64_hundredth: "fl64 (1 / 100) = Fin (5764607523034235 / 576460752303423488)"
proof -
  have il: "ilog2 (1 / 100) = - 7" by (rule ilog2_unique) simp_all
  show ?thesis
    by (simp add: fl64_def roundPos_def il roundHalfEven_def Let_def floor_rat_numeral)
qed

lemma fl64_of_int: "\<bar>m\<bar> < 2 ^ 53 \<Longrightarrow> fl64 (of_int m) = Fin (of_int m)"
  using fl64_exact [of m 0] by simp

lemma fl64_numeral: "numeral k < (2 ^ 53 :: int) \<Longrightarrow> fl64 (numeral k) = Fin (numeral k)"
  using fl64_of_int [of "numeral k"] by simp

lemma fl64_zero: "fl64 0 = Fin 0"
  by (simp add: fl64_def)

lemma sub64_Fin: "sub64 (Fin a) (Fin b) = fl64 (a - b)"
  by (simp add: sub64_def)



lemma fl64_one: "fl64 1 = Fin 1"
  using fl64_of_int [of 1] by simp

lemma fl64_minus_one: "fl64 (- 1) = Fin (- 1)"
  using fl64_of_int [of "- 1"] by simp

lemma fl64_neg_numeral:
  "numeral k < (2 ^ 53 :: int) \<Longrightarrow> fl64 (- numeral k) = Fin (- numeral k)"
  using fl64_of_int [of "- numeral k"] by simp

lemmas fl64_integers = fl64_zero fl64_one fl64_minus_one fl64_numeral fl64_neg_numeral

section \<open>The loop as a list of pushes\<close>

lemmas check_defs = checkEntry_def requiredChecks_def dateChecks_def scheduleChecks_def
  negativeChecks_def hourFields_def totalCheck_def calculatedTotal_def exceedCheck_def
  isSubmitted_def hasHours_def statusChecks_def recencyChecks_def clockReads_def
  consistencyChecks_def pushedTo_def validStatuses_def mathRound_def

lemmas sample_defs = samplePlatform_def sampleParseDate_def sampleNumToString_def
  sampleToFixed2_def sampleClock_def fl64_integers sub64_Fin fl64_hundredth

lemma pushedTo_append: "pushedTo a (xs @ ys) = pushedTo a xs @ pushedTo a ys"
  by (simp add: pushedTo_def)

lemma pushedTo_Nil: "pushedTo a [] = []"
  by (simp add: pushedTo_def)

lemma forEachEntry_allPushes:
  "forEachEntry P clk i es (E, W, k) =
     (E @ pushedTo ToErrors (allPushes P clk i es k),
      W @ pushedTo ToWarnings (allPushes P clk i es k),
      k + sum_list (map (clockReads P) es))"
proof (induction es arbitrary: i E W k)
  case Nil
  show ?case by (simp add: pushedTo_Nil)
next
  case (Cons e es)
  show ?case
    by (simp add: Cons.IH pushedTo_append Let_def add.assoc)
qed

lemma validateTimesheet_allPushes:
  "validateTimesheet P clk es k =
     (\<lparr>isValid = (pushedTo ToErrors (allPushes P clk 0 es k) = []),
       errors = pushedTo ToErrors (allPushes P clk 0 es k),
       warnings = pushedTo ToWarnings (allPushes P clk 0 es k)\<rparr>,
      k + sum_list (map (clockReads P) es))"
  by (simp add: validateTimesheet_def forEachEntry_allPushes)


lemma requiredChecks_rows: "list_all (\<lambda>p. row (snd p) = r) (requiredChecks r e)"
  by (simp add: requiredChecks_def)

lemma dateChecks_rows: "list_all (\<lambda>p. row (snd p) = r) (dateChecks P r e)"
  by (simp add: dateChecks_def Let_def split: option.splits)

lemma scheduleChecks_rows: "list_all (\<lambda>p. row (snd p) = r) (scheduleChecks r e)"
  by (simp add: scheduleChecks_def)

lemma negativeChecks_rows: "list_all (\<lambda>p. row (snd p) = r) (negativeChecks r e)"
  by (simp add: negativeChecks_def hourFields_def)

lemma totalCheck_rows: "list_all (\<lambda>p. row (snd p) = r) (totalCheck P r e)"
  by (simp add: totalCheck_def Let_def)

lemma exceedCheck_rows: "list_all (\<lambda>p. row (snd p) = r) (exceedCheck P r e)"
  by (simp add: exceedCheck_def)

lemma statusChecks_rows: "list_all (\<lambda>p. row (snd p) = r) (statusChecks r e)"
  by (simp add: statusChecks_def)

lemma recencyChecks_rows: "list_all (\<lambda>p. row (snd p) = r) (recencyChecks P c1 c2 r e)"
  by (simp add: recencyChecks_def Let_def split: option.splits)

lemma consistencyChecks_rows: "list_all (\<lambda>p. row (snd p) = r) (consistencyChecks r e)"
  by (simp add: consistencyChecks_def)

lemma checkEntry_rows: "list_all (\<lambda>p. row (snd p) = r) (checkEntry P c1 c2 r e)"
  by (simp add: checkEntry_def requiredChecks_rows dateChecks_rows scheduleChecks_rows
      negativeChecks_rows totalCheck_rows exceedCheck_rows statusChecks_rows
      recencyChecks_rows consistencyChecks_rows)

lemma checkEntry_row: "p \<in> set (checkEntry P c1 c2 r e) \<Longrightarrow> row (snd p) = r"
  using checkEntry_rows [of r P c1 c2 e] by (simp add: list_all_iff)

lemma allPushes_row_bounds:
  "p \<in> set (allPushes P clk i es k) \<Longrightarrow> i < row (snd p) \<and> row (snd p) \<le> i + length es"
proof (induction es arbitrary: i k)
  case Nil
  then show ?case by simp
next
  case (Cons e es)
  from Cons.prems consider
      (here) "p \<in> set (checkEntry P (clk k) (clk (Suc k)) (i + 1) e)"
    | (later) "p \<in> set (allPushes P clk (Suc i) es (k + clockReads P e))"
    by auto
  then show ?case
  proof cases
    case here
    then have "row (snd p) = i + 1" by (rule checkEntry_row)
    then show ?thesis by simp
  next
    case later
    from Cons.IH [OF later] show ?thesis by simp
  qed
qed

lemma filter_row_checkEntry_same:
  "filter (\<lambda>p. row (snd p) = r) (checkEntry P c1 c2 r e) = checkEntry P c1 c2 r e"
  by (rule filter_True) (simp add: checkEntry_row)

lemma filter_row_checkEntry_other:
  "r' \<noteq> r \<Longrightarrow> filter (\<lambda>p. row (snd p) = r') (checkEntry P c1 c2 r e) = []"
  by (auto simp: filter_empty_conv dest: checkEntry_row)

lemma filter_row_allPushes_before:
  "r \<le> i \<Longrightarrow> filter (\<lambda>p. row (snd p) = r) (allPushes P clk i es k) = []"
  by (auto simp: filter_empty_conv dest: allPushes_row_bounds)

lemma filter_row_allPushes:
  "j < length es \<Longrightarrow>
   filter (\<lambda>p. row (snd p) = Suc (i + j)) (allPushes P clk i es k) =
     checkEntry P (clk (tickAt P es k j)) (clk (Suc (tickAt P es k j))) (Suc (i + j)) (es ! j)"
proof (induction es arbitrary: i j k)
  case Nil
  then show ?case by simp
next
  case (Cons e es)
  show ?case
  proof (cases j)
    case 0
    then show ?thesis
      by (simp add: filter_row_checkEntry_same filter_row_allPushes_before tickAt_def)
  next
    case (Suc j')
    with Cons.prems have j': "j' < length es" by simp
    have "filter (\<lambda>p. row (snd p) = Suc (Suc i + j'))
            (allPushes P clk (Suc i) es (k + clockReads P e)) =
          checkEntry P (clk (tickAt P es (k + clockReads P e) j'))
            (clk (Suc (tickAt P es (k + clockReads P e) j'))) (Suc (Suc i + j')) (es ! j')"
      by (rule Cons.IH [OF j'])
    moreover have "tickAt P es (k + clockReads P e) j' = tickAt P (e # es) k j"
      by (simp add: tickAt_def Suc)
    ultimately show ?thesis
      by (simp add: Suc filter_row_checkEntry_other)
  qed
qed

lemma filter_pushedTo:
  "filter Q (pushedTo a ps) = pushedTo a (filter (\<lambda>p. Q (snd p)) ps)"
  by (induction ps) (auto simp: pushedTo_def)

lemma getRowErrors_validateTimesheet:
  "j < length es \<Longrightarrow>
   getRowErrors (errors (fst (validateTimesheet P clk es k))) j =
     pushedTo ToErrors
       (checkEntry P (clk (tickAt P es k j)) (clk (Suc (tickAt P es k j))) (j + 1) (es ! j))"
  using filter_row_allPushes [of j es 0 P clk k]
  by (simp add: getRowErrors_def validateTimesheet_allPushes filter_pushedTo)

lemma getRowWarnings_validateTimesheet:
  "j < length es \<Longrightarrow>
   getRowWarnings (warnings (fst (validateTimesheet P clk es k))) j =
     pushedTo ToWarnings
       (checkEntry P (clk (tickAt P es k j)) (clk (Suc (tickAt P es k j))) (j + 1) (es ! j))"
  using filter_row_allPushes [of j es 0 P clk k]
  by (simp add: getRowWarnings_def validateTimesheet_allPushes filter_pushedTo)


lemma requiredChecks_severity: "list_all severityMatches (requiredChecks r e)"
  by (simp add: requiredChecks_def severityMatches_def)

lemma dateChecks_severity: "list_all severityMatches (dateChecks P r e)"
  by (simp add: dateChecks_def severityMatches_def Let_def split: option.splits)

lemma scheduleChecks_severity: "list_all severityMatches (scheduleChecks r e)"
  by (simp add: scheduleChecks_def severityMatches_def)

lemma negativeChecks_severity: "list_all severityMatches (negativeChecks r e)"
  by (simp add: negativeChecks_def hourFields_def severityMatches_def)

lemma totalCheck_severity: "list_all severityMatches (totalCheck P r e)"
  by (simp add: totalCheck_def severityMatches_def Let_def)

lemma exceedCheck_severity: "list_all severityMatches (exceedCheck P r e)"
  by (simp add: exceedCheck_def severityMatches_def)

lemma statusChecks_severity: "list_all severityMatches (statusChecks r e)"
  by (simp add: statusChecks_def severityMatches_def)

lemma recencyChecks_severity: "list_all severityMatches (recencyChecks P c1 c2 r e)"
  by (simp add: recencyChecks_def severityMatches_def Let_def split: option.splits)

lemma consistencyChecks_severity: "list_all severityMatches (consistencyChecks r e)"
  by (simp add: consistencyChecks_def severityMatches_def)

lemma checkEntry_severity: "list_all severityMatches (checkEntry P c1 c2 r e)"
  by (simp add: checkEntry_def requiredChecks_severity dateChecks_severity
      scheduleChecks_severity negativeChecks_severity totalCheck_severity exceedCheck_severity
      statusChecks_severity recencyChecks_severity consistencyChecks_severity)

lemma allPushes_severity: "list_all severityMatches (allPushes P clk i es k)"
  by (induction es arbitrary: i k) (simp_all add: checkEntry_severity)

lemma pushedTo_errors_severity:
  "list_all severityMatches ps \<Longrightarrow> list_all (\<lambda>f. severity f = Error) (pushedTo ToErrors ps)"
  by (induction ps) (auto simp: pushedTo_def severityMatches_def)

lemma pushedTo_warnings_severity:
  "list_all severityMatches ps \<Longrightarrow> list_all (\<lambda>f. severity f = Warning) (pushedTo ToWarnings ps)"
  by (induction ps) (auto simp: pushedTo_def severityMatches_def)

lemma errors_all_Error:
  "list_all (\<lambda>f. severity f = Error) (errors (fst (validateTimesheet P clk es k)))"
  by (simp add: validateTimesheet_allPushes pushedTo_errors_severity allPushes_severity)

lemma warnings_all_Warning:
  "list_all (\<lambda>f. severity f = Warning) (warnings (fst (validateTimesheet P clk es k)))"
  by (simp add: validateTimesheet_allPushes pushedTo_warnings_severity allPushes_severity)

text \<open>
  Claim C10. Every finding in the returned \<open>errors\<close> sequence has severity
  \<open>error\<close>, and every finding in the returned \<open>warnings\<close> sequence has severity
  \<open>warning\<close>: the severity of a finding agrees with the sequence that holds it.
\<close>

theorem severity_agrees_with_sequence:
  "(\<forall>f \<in> set (errors (fst (validateTimesheet P clk es k))). severity f = Error) \<and>
   (\<forall>f \<in> set (warnings (fst (validateTimesheet P clk es k))). severity f = Warning)"
  using errors_all_Error [of P clk es k] warnings_all_Warning [of P clk es k]
  by (simp add: list_all_iff)

theorem severity_agrees_with_sequence_witness:
  "map severity (errors (fst (validateTimesheet samplePlatform sampleClock [scenarioE] 0))) = [Error] \<and>
   map severity (warnings (fst (validateTimesheet samplePlatform sampleClock [scenarioD] 0))) = [Warning]"
  using severity_agrees_with_sequence [of samplePlatform sampleClock "[scenarioE]" 0]
    severity_agrees_with_sequence [of samplePlatform sampleClock "[scenarioD]" 0]
  by (simp add: validateTimesheet_def check_defs sample_defs scenarioA_def scenarioD_def scenarioE_def)

text \<open>
  Claim C1. For every record sequence, \<open>isValid\<close> is true exactly when the returned
  \<open>errors\<close> sequence is empty, and exactly when no finding of either returned
  sequence has severity \<open>error\<close>; warnings do not affect it.
\<close>

theorem isValid_iff_no_error_findings:
  "(isValid (fst (validateTimesheet P clk es k)) \<longleftrightarrow>
      errors (fst (validateTimesheet P clk es k)) = []) \<and>
   (isValid (fst (validateTimesheet P clk es k)) \<longleftrightarrow>
      length (filter (\<lambda>f. severity f = Error)
        (errors (fst (validateTimesheet P clk es k)) @
         warnings (fst (validateTimesheet P clk es k)))) = 0)"
proof -
  let ?res = "fst (validateTimesheet P clk es k)"
  have valid: "isValid ?res \<longleftrightarrow> errors ?res = []"
    by (simp add: validateTimesheet_def split: prod.splits)
  have "filter (\<lambda>f. severity f = Error) (errors ?res) = errors ?res"
    using errors_all_Error [of P clk es k] by (simp add: list_all_iff)
  moreover have "filter (\<lambda>f. severity f = Error) (warnings ?res) = []"
    using warnings_all_Warning [of P clk es k] by (auto simp: list_all_iff filter_empty_conv)
  ultimately show ?thesis
    using valid by simp
qed

lemma filter_pushedTo_none:
  "list_all (\<lambda>p. \<not> Q (snd p)) ps \<Longrightarrow> filter Q (pushedTo a ps) = []"
  by (induction ps) (auto simp: pushedTo_def)

lemma requiredChecks_not_exceed:
  "list_all (\<lambda>p. \<not> isExceedFinding (snd p)) (requiredChecks r e)"
  by (simp add: requiredChecks_def isExceedFinding_def)

lemma dateChecks_not_exceed:
  "list_all (\<lambda>p. \<not> isExceedFinding (snd p)) (dateChecks P r e)"
  by (simp add: dateChecks_def isExceedFinding_def Let_def split: option.splits)

lemma scheduleChecks_not_exceed:
  "list_all (\<lambda>p. \<not> isExceedFinding (snd p)) (scheduleChecks r e)"
  by (simp add: scheduleChecks_def isExceedFinding_def)

lemma negativeChecks_not_exceed:
  "list_all (\<lambda>p. \<not> isExceedFinding (snd p)) (negativeChecks r e)"
  by (simp add: negativeChecks_def hourFields_def isExceedFinding_def)

lemma totalCheck_not_exceed:
  "list_all (\<lambda>p. \<not> isExceedFinding (snd p)) (totalCheck P r e)"
  by (simp add: totalCheck_def isExceedFinding_def Let_def)

lemma statusChecks_not_exceed:
  "list_all (\<lambda>p. \<not> isExceedFinding (snd p)) (statusChecks r e)"
  by (simp add: statusChecks_def isExceedFinding_def)

lemma recencyChecks_not_exceed:
  "list_all (\<lambda>p. \<not> isExceedFinding (snd p)) (recencyChecks P c1 c2 r e)"
  by (simp add: recencyChecks_def isExceedFinding_def Let_def split: option.splits)

lemma consistencyChecks_not_exceed:
  "list_all (\<lambda>p. \<not> isExceedFinding (snd p)) (consistencyChecks r e)"
  by (simp add: consistencyChecks_def isExceedFinding_def)

lemma exceed_of_checkEntry:
  "filter isExceedFinding (pushedTo a (checkEntry P c1 c2 r e)) =
   filter isExceedFinding (pushedTo a (exceedCheck P r e))"
  by (simp add: checkEntry_def pushedTo_append filter_pushedTo_none
      requiredChecks_not_exceed dateChecks_not_exceed scheduleChecks_not_exceed
      negativeChecks_not_exceed totalCheck_not_exceed statusChecks_not_exceed
      recencyChecks_not_exceed consistencyChecks_not_exceed)

lemma exceedCheck_warnings:
  "filter isExceedFinding (pushedTo ToWarnings (exceedCheck P r e)) =
     (if reportedHours e > scheduleHours e \<and>
         timesheetStatus e \<in> {''Approved'', ''Partially Approved'', ''Partially Submitted''}
      then [\<lparr>row = r, field = ''reportedHours'',
              message = ''Reported hours ('' @ numToString P (reportedHours e) @
                '') exceed schedule hours ('' @ numToString P (scheduleHours e) @ '')'',
              severity = Warning\<rparr>]
      else [])"
  by (simp add: exceedCheck_def pushedTo_def isExceedFinding_def isSubmitted_def)

lemma exceedCheck_errors:
  "filter isExceedFinding (pushedTo ToErrors (exceedCheck P r e)) =
     (if reportedHours e > scheduleHours e \<and>
         timesheetStatus e \<notin> {''Approved'', ''Partially Approved'', ''Partially Submitted''}
      then [\<lparr>row = r, field = ''reportedHours'',
              message = ''Reported hours ('' @ numToString P (reportedHours e) @
                '') cannot exceed schedule hours ('' @ numToString P (scheduleHours e) @ '')'',
              severity = Error\<rparr>]
      else [])"
  by (simp add: exceedCheck_def pushedTo_def isExceedFinding_def isSubmitted_def)

text \<open>
  Claim C2, as amended. For every record, the reported-exceeds-schedule findings of its
  row are: exactly one warning when reported hours are strictly greater than schedule
  hours and the status is Approved, Partially Approved or Partially Submitted; exactly
  one error when they are greater and the status is any other; none when reported
  hours do not exceed schedule hours.
\<close>

theorem exceed_finding_by_status:
  assumes "j < length es"
  shows "filter isExceedFinding (getRowWarnings (warnings (fst (validateTimesheet P clk es k))) j) =
     (if reportedHours (es ! j) > scheduleHours (es ! j) \<and>
         timesheetStatus (es ! j) \<in> {''Approved'', ''Partially Approved'', ''Partially Submitted''}
      then [\<lparr>row = j + 1, field = ''reportedHours'',
              message = ''Reported hours ('' @ numToString P (reportedHours (es ! j)) @
                '') exceed schedule hours ('' @ numToString P (scheduleHours (es ! j)) @ '')'',
              severity = Warning\<rparr>]
      else []) \<and>
   filter isExceedFinding (getRowErrors (errors (fst (validateTimesheet P clk es k))) j) =
     (if reportedHours (es ! j) > scheduleHours (es ! j) \<and>
         timesheetStatus (es ! j) \<notin> {''Approved'', ''Partially Approved'', ''Partially Submitted''}
      then [\<lparr>row = j + 1, field = ''reportedHours'',
              message = ''Reported hours ('' @ numToString P (reportedHours (es ! j)) @
                '') cannot exceed schedule hours ('' @ numToString P (scheduleHours (es ! j)) @ '')'',
              severity = Error\<rparr>]
      else [])"
  unfolding getRowWarnings_validateTimesheet [OF assms] getRowErrors_validateTimesheet [OF assms]
    exceed_of_checkEntry exceedCheck_warnings exceedCheck_errors
  by (rule conjI; rule refl)

theorem exceed_finding_by_status_witness:
  "filter isExceedFinding
     (getRowWarnings (warnings (fst (validateTimesheet samplePlatform sampleClock
        [scenarioD, scenarioE, scenarioA] 0))) 0) =
     [\<lparr>row = 1, field = ''reportedHours'',
        message = ''Reported hours (50) exceed schedule hours (40)'', severity = Warning\<rparr>] \<and>
   filter isExceedFinding
     (getRowErrors (errors (fst (validateTimesheet samplePlatform sampleClock
        [scenarioD, scenarioE, scenarioA] 0))) 0) = [] \<and>
   filter isExceedFinding
     (getRowWarnings (warnings (fst (validateTimesheet samplePlatform sampleClock
        [scenarioD, scenarioE, scenarioA] 0))) 1) = [] \<and>
   filter isExceedFinding
     (getRowErrors (errors (fst (validateTimesheet samplePlatform sampleClock
        [scenarioD, scenarioE, scenarioA] 0))) 1) =
     [\<lparr>row = 2, field = ''reportedHours'',
        message = ''Reported hours (50) cannot exceed schedule hours (40)'', severity = Error\<rparr>] \<and>
   filter isExceedFinding
     (getRowWarnings (warnings (fst (validateTimesheet samplePlatform sampleClock
        [scenarioD, scenarioE, scenarioA] 0))) 2) = [] \<and>
   filter isExceedFinding
     (getRowErrors (errors (fst (validateTimesheet samplePlatform sampleClock
        [scenarioD, scenarioE, scenarioA] 0))) 2) = []"
  using exceed_finding_by_status [of 0 "[scenarioD, scenarioE, scenarioA]" samplePlatform sampleClock 0]
    exceed_finding_by_status [of 1 "[scenarioD, scenarioE, scenarioA]" samplePlatform sampleClock 0]
    exceed_finding_by_status [of 2 "[scenarioD, scenarioE, scenarioA]" samplePlatform sampleClock 0]
  by (simp add: sample_defs scenarioA_def scenarioD_def scenarioE_def)

text \<open>
  Claim C2 as stated fails: a record that exceeds its schedule can carry a second
  finding on the \<open>reportedHours\<close> field, here the missing-breakdown warning.
\<close>

theorem exceed_single_finding_counterexample:
  "reportedHours reportedOnly > scheduleHours reportedOnly \<and>
   filter (onField ''reportedHours'')
     (getRowErrors (errors (fst (validateTimesheet samplePlatform sampleClock [reportedOnly] 0))) 0 @
      getRowWarnings (warnings (fst (validateTimesheet samplePlatform sampleClock [reportedOnly] 0))) 0) =
     [\<lparr>row = 1, field = ''reportedHours'',
        message = ''Reported hours (50) exceed schedule hours (40)'', severity = Warning\<rparr>,
      \<lparr>row = 1, field = ''reportedHours'',
        message = ''Reported hours exist but no breakdown provided (regular, overtime, holiday, leave)'',
        severity = Warning\<rparr>]"
  by (simp add: validateTimesheet_def check_defs sample_defs reportedOnly_def
      getRowErrors_def getRowWarnings_def onField_def)















lemma requiredChecks_not_long:
  "list_all (\<lambda>p. \<not> isLongPeriod (snd p)) (requiredChecks r e)"
  by (simp add: requiredChecks_def isLongPeriod_def)

lemma scheduleChecks_not_long:
  "list_all (\<lambda>p. \<not> isLongPeriod (snd p)) (scheduleChecks r e)"
  by (simp add: scheduleChecks_def isLongPeriod_def)

lemma negativeChecks_not_long:
  "list_all (\<lambda>p. \<not> isLongPeriod (snd p)) (negativeChecks r e)"
  by (simp add: negativeChecks_def hourFields_def isLongPeriod_def)

lemma totalCheck_not_long:
  "list_all (\<lambda>p. \<not> isLongPeriod (snd p)) (totalCheck P r e)"
  by (simp add: totalCheck_def isLongPeriod_def Let_def)

lemma exceedCheck_not_long:
  "list_all (\<lambda>p. \<not> isLongPeriod (snd p)) (exceedCheck P r e)"
  by (simp add: exceedCheck_def isLongPeriod_def)

lemma statusChecks_not_long:
  "list_all (\<lambda>p. \<not> isLongPeriod (snd p)) (statusChecks r e)"
  by (simp add: statusChecks_def isLongPeriod_def)

lemma recencyChecks_not_long:
  "list_all (\<lambda>p. \<not> isLongPeriod (snd p)) (recencyChecks P c1 c2 r e)"
  by (simp add: recencyChecks_def isLongPeriod_def Let_def split: option.splits)

lemma consistencyChecks_not_long:
  "list_all (\<lambda>p. \<not> isLongPeriod (snd p)) (consistencyChecks r e)"
  by (simp add: consistencyChecks_def isLongPeriod_def)

lemma long_of_checkEntry:
  "filter isLongPeriod (pushedTo a (checkEntry P c1 c2 r e)) =
   filter isLongPeriod (pushedTo a (dateChecks P r e))"
  by (simp add: checkEntry_def pushedTo_append filter_pushedTo_none
      requiredChecks_not_long scheduleChecks_not_long negativeChecks_not_long
      totalCheck_not_long exceedCheck_not_long statusChecks_not_long
      recencyChecks_not_long consistencyChecks_not_long)

lemma daysDiff_gt_14:
  "(of_int d :: rat) / (1000 * 60 * 60 * 24) > 14 \<longleftrightarrow> d > 14 * 86400000"
proof -
  have "(of_int d :: rat) / (1000 * 60 * 60 * 24) > 14 \<longleftrightarrow> (of_int d :: rat) > 14 * 86400000"
    by (simp add: field_simps)
  also have "\<dots> \<longleftrightarrow> (of_int d :: rat) > of_int (14 * 86400000)"
    by simp
  also have "\<dots> \<longleftrightarrow> d > 14 * 86400000"
    by (simp only: of_int_less_iff)
  finally show ?thesis .
qed

lemma dateChecks_long_warnings:
  assumes "startDate e \<noteq> []" "endDate e \<noteq> []"
    and "parseDate P (startDate e) = Some s" "parseDate P (endDate e) = Some t"
  shows "filter isLongPeriod (pushedTo ToWarnings (dateChecks P r e)) =
     (if t - s > 14 * 86400000
      then [\<lparr>row = r, field = ''endDate'',
              message = ''Long period ('' @
                numToString P (of_int (mathRound (of_int (t - s) / (1000 * 60 * 60 * 24)))) @
                '' days). Typical periods are 7-14 days'',
              severity = Warning\<rparr>]
      else [])"
  using assms
  by (simp add: dateChecks_def pushedTo_def isLongPeriod_def Let_def daysDiff_gt_14)

lemma dateChecks_long_errors:
  "filter isLongPeriod (pushedTo ToErrors (dateChecks P r e)) = []"
  by (simp add: dateChecks_def pushedTo_def isLongPeriod_def Let_def split: option.splits)

text \<open>
  Claim C4. For every record whose start and end dates are both present and parse, with
  the end after the start, the long-period findings of its row are exactly one warning
  when the span exceeds 14 days (in milliseconds, as the code measures it) and none
  otherwise. In particular a period of exactly 14 days yields none and a period of 15
  days yields one.
\<close>

theorem long_period_iff:
  assumes "j < length es"
    and "startDate (es ! j) \<noteq> []" and "endDate (es ! j) \<noteq> []"
    and "parseDate P (startDate (es ! j)) = Some s"
    and "parseDate P (endDate (es ! j)) = Some t"
    and "s < t"
  shows "filter isLongPeriod (getRowWarnings (warnings (fst (validateTimesheet P clk es k))) j) =
     (if t - s > 14 * 86400000
      then [\<lparr>row = j + 1, field = ''endDate'',
              message = ''Long period ('' @
                numToString P (of_int (mathRound (of_int (t - s) / (1000 * 60 * 60 * 24)))) @
                '' days). Typical periods are 7-14 days'',
              severity = Warning\<rparr>]
      else []) \<and>
   filter isLongPeriod (getRowErrors (errors (fst (validateTimesheet P clk es k))) j) = [] \<and>
   (t - s = 14 * 86400000 \<longrightarrow>
      filter isLongPeriod
        (getRowWarnings (warnings (fst (validateTimesheet P clk es k))) j) = []) \<and>
   (t - s = 15 * 86400000 \<longrightarrow>
      length (filter isLongPeriod
        (getRowWarnings (warnings (fst (validateTimesheet P clk es k))) j)) = 1)"
  unfolding getRowWarnings_validateTimesheet [OF assms(1)]
    getRowErrors_validateTimesheet [OF assms(1)] long_of_checkEntry
    dateChecks_long_warnings [OF assms(2-5)] dateChecks_long_errors
  by simp

theorem long_period_iff_witness:
  "filter isLongPeriod (getRowWarnings (warnings (fst (validateTimesheet samplePlatform sampleClock
      [fourteenDays, fifteenDays] 0))) 0) = [] \<and>
   filter isLongPeriod (getRowWarnings (warnings (fst (validateTimesheet samplePlatform sampleClock
      [fourteenDays, fifteenDays] 0))) 1) =
     [\<lparr>row = 2, field = ''endDate'',
        message = ''Long period (15 days). Typical periods are 7-14 days'',
        severity = Warning\<rparr>]"
  using long_period_iff [of 0 "[fourteenDays, fifteenDays]" samplePlatform
      1704067200000 1705276800000 sampleClock 0]
    long_period_iff [of 1 "[fourteenDays, fifteenDays]" samplePlatform
      1704067200000 1705363200000 sampleClock 0]
  by (simp add: sample_defs scenarioA_def fourteenDays_def fifteenDays_def mathRound_def
      floor_rat_numeral)

lemma requiredChecks_not_status:
  "timesheetStatus e = ''Absence/Holiday'' \<Longrightarrow>
   list_all (\<lambda>p. \<not> onField ''timesheetStatus'' (snd p)) (requiredChecks r e)"
  by (simp add: requiredChecks_def onField_def validStatuses_def)

lemma dateChecks_not_status:
  "list_all (\<lambda>p. \<not> onField ''timesheetStatus'' (snd p)) (dateChecks P r e)"
  by (simp add: dateChecks_def onField_def Let_def split: option.splits)

lemma scheduleChecks_not_status:
  "list_all (\<lambda>p. \<not> onField ''timesheetStatus'' (snd p)) (scheduleChecks r e)"
  by (simp add: scheduleChecks_def onField_def)

lemma negativeChecks_not_status:
  "list_all (\<lambda>p. \<not> onField ''timesheetStatus'' (snd p)) (negativeChecks r e)"
  by (simp add: negativeChecks_def hourFields_def onField_def)

lemma totalCheck_not_status:
  "list_all (\<lambda>p. \<not> onField ''timesheetStatus'' (snd p)) (totalCheck P r e)"
  by (simp add: totalCheck_def onField_def Let_def)

lemma exceedCheck_not_status:
  "list_all (\<lambda>p. \<not> onField ''timesheetStatus'' (snd p)) (exceedCheck P r e)"
  by (simp add: exceedCheck_def onField_def)

lemma recencyChecks_not_status:
  "list_all (\<lambda>p. \<not> onField ''timesheetStatus'' (snd p)) (recencyChecks P c1 c2 r e)"
  by (simp add: recencyChecks_def onField_def Let_def split: option.splits)

lemma consistencyChecks_not_status:
  "list_all (\<lambda>p. \<not> onField ''timesheetStatus'' (snd p)) (consistencyChecks r e)"
  by (simp add: consistencyChecks_def onField_def)

lemma status_of_checkEntry:
  "timesheetStatus e = ''Absence/Holiday'' \<Longrightarrow>
   filter (onField ''timesheetStatus'') (pushedTo a (checkEntry P c1 c2 r e)) =
   filter (onField ''timesheetStatus'') (pushedTo a (statusChecks r e))"
  by (simp add: checkEntry_def pushedTo_append filter_pushedTo_none
      requiredChecks_not_status dateChecks_not_status scheduleChecks_not_status
      negativeChecks_not_status totalCheck_not_status exceedCheck_not_status
      recencyChecks_not_status consistencyChecks_not_status)

lemma statusChecks_absence_warnings:
  "timesheetStatus e = ''Absence/Holiday'' \<Longrightarrow>
   filter (onField ''timesheetStatus'') (pushedTo ToWarnings (statusChecks r e)) =
     (if regularHours e > 0 \<or> overtimeHours e > 0
      then [\<lparr>row = r, field = ''timesheetStatus'',
              message = ''Absence/Holiday status should not have regular or overtime hours'',
              severity = Warning\<rparr>]
      else [])"
  by (simp add: statusChecks_def pushedTo_def onField_def)

lemma statusChecks_absence_errors:
  "filter (onField ''timesheetStatus'') (pushedTo ToErrors (statusChecks r e)) = []"
  by (simp add: statusChecks_def pushedTo_def onField_def)

text \<open>
  Claim C5, as amended. For every record whose status is Absence/Holiday, the findings
  of its row on the \<open>timesheetStatus\<close> field are exactly one warning when regular
  hours or overtime hours are greater than zero, and none otherwise; in particular none
  when both are zero.
\<close>

theorem absence_warning_when_positive:
  assumes "j < length es"
    and "timesheetStatus (es ! j) = ''Absence/Holiday''"
  shows "filter (onField ''timesheetStatus'')
      (getRowWarnings (warnings (fst (validateTimesheet P clk es k))) j) =
     (if regularHours (es ! j) > 0 \<or> overtimeHours (es ! j) > 0
      then [\<lparr>row = j + 1, field = ''timesheetStatus'',
              message = ''Absence/Holiday status should not have regular or overtime hours'',
              severity = Warning\<rparr>]
      else []) \<and>
   filter (onField ''timesheetStatus'')
      (getRowErrors (errors (fst (validateTimesheet P clk es k))) j) = []"
  unfolding getRowWarnings_validateTimesheet [OF assms(1)]
    getRowErrors_validateTimesheet [OF assms(1)] status_of_checkEntry [OF assms(2)]
    statusChecks_absence_warnings [OF assms(2)] statusChecks_absence_errors
  by simp

theorem absence_warning_when_positive_witness:
  "filter (onField ''timesheetStatus'')
      (getRowWarnings (warnings (fst (validateTimesheet samplePlatform sampleClock
         [absenceWorked, absenceClean, absenceNegative] 0))) 0) =
     [\<lparr>row = 1, field = ''timesheetStatus'',
        message = ''Absence/Holiday status should not have regular or overtime hours'',
        severity = Warning\<rparr>] \<and>
   filter (onField ''timesheetStatus'')
      (getRowWarnings (warnings (fst (validateTimesheet samplePlatform sampleClock
         [absenceWorked, absenceClean, absenceNegative] 0))) 1) = [] \<and>
   filter (onField ''timesheetStatus'')
      (getRowWarnings (warnings (fst (validateTimesheet samplePlatform sampleClock
         [absenceWorked, absenceClean, absenceNegative] 0))) 2) = []"
  using absence_warning_when_positive [of 0 "[absenceWorked, absenceClean, absenceNegative]"
      samplePlatform sampleClock 0]
    absence_warning_when_positive [of 1 "[absenceWorked, absenceClean, absenceNegative]"
      samplePlatform sampleClock 0]
    absence_warning_when_positive [of 2 "[absenceWorked, absenceClean, absenceNegative]"
      samplePlatform sampleClock 0]
  by (simp add: absenceWorked_def absenceClean_def absenceNegative_def)

text \<open>
  Claim C5 as stated fails for negative values: an absence record with regular hours
  \<open>-1\<close> gets no warning on the \<open>timesheetStatus\<close> field.
\<close>

theorem absence_negative_hours_counterexample:
  "timesheetStatus absenceNegative = ''Absence/Holiday'' \<and>
   regularHours absenceNegative \<noteq> 0 \<and>
   filter (onField ''timesheetStatus'')
     (getRowWarnings (warnings (fst (validateTimesheet samplePlatform sampleClock
        [absenceNegative] 0))) 0) = []"
  by (simp add: validateTimesheet_def check_defs sample_defs absenceNegative_def
      getRowWarnings_def onField_def)

lemma recencyChecks_unread:
  "clockReads P e < 2 \<Longrightarrow> recencyChecks P c1 c2 r e = []"
  by (simp add: recencyChecks_def clockReads_def split: if_splits option.splits)

lemma clockReads_le_2: "clockReads P e \<le> 2"
  by (simp add: clockReads_def split: option.splits)

lemma checkEntry_clock_cong:
  assumes "\<forall>i < clockReads P e. clk (k + i) = clk' (k' + i)"
  shows "checkEntry P (clk k) (clk (Suc k)) r e = checkEntry P (clk' k') (clk' (Suc k')) r e"
proof (cases "clockReads P e < 2")
  case True
  then show ?thesis by (simp add: checkEntry_def recencyChecks_unread)
next
  case False
  with clockReads_le_2 [of P e] have two: "clockReads P e = 2" by simp
  from assms two have all2: "\<forall>i < 2. clk (k + i) = clk' (k' + i)" by simp
  have "(0::nat) < 2" and "(1::nat) < 2" by simp_all
  with all2 have "clk (k + 0) = clk' (k' + 0)" and "clk (k + 1) = clk' (k' + 1)"
    by blast+
  then show ?thesis by simp
qed

lemma allPushes_clock_cong:
  "\<forall>i < sum_list (map (clockReads P) es). clk (k + i) = clk' (k' + i) \<Longrightarrow>
   allPushes P clk n es k = allPushes P clk' n es k'"
proof (induction es arbitrary: n k k')
  case Nil
  show ?case by simp
next
  case (Cons e es)
  have here: "checkEntry P (clk k) (clk (Suc k)) (n + 1) e =
      checkEntry P (clk' k') (clk' (Suc k')) (n + 1) e"
    using Cons.prems by (intro checkEntry_clock_cong) simp
  have "\<forall>i < sum_list (map (clockReads P) es).
      clk (k + clockReads P e + i) = clk' (k' + clockReads P e + i)"
  proof (intro allI impI)
    fix i
    assume "i < sum_list (map (clockReads P) es)"
    then have "clockReads P e + i < sum_list (map (clockReads P) (e # es))" by simp
    with Cons.prems have "clk (k + (clockReads P e + i)) = clk' (k' + (clockReads P e + i))"
      by blast
    then show "clk (k + clockReads P e + i) = clk' (k' + clockReads P e + i)"
      by (simp add: add.assoc)
  qed
  then have "allPushes P clk (Suc n) es (k + clockReads P e) =
      allPushes P clk' (Suc n) es (k' + clockReads P e)"
    by (rule Cons.IH)
  with here show ?case by simp
qed

lemma validateTimesheet_ticks:
  "snd (validateTimesheet P clk es k) = k + sum_list (map (clockReads P) es)"
  by (simp add: validateTimesheet_allPushes)

text \<open>
  Claim C8. For every record sequence, validating it twice in a row yields identical
  error and warning sequences (and the same validity flag), provided the clock gives
  the second run the readings it gave the first.
\<close>

theorem validate_twice_same_findings:
  assumes "\<forall>i < snd (validateTimesheet P clk es k) - k.
     clk (snd (validateTimesheet P clk es k) + i) = clk (k + i)"
  shows "errors (fst (validateTwice P clk es k)) = errors (snd (validateTwice P clk es k)) \<and>
    warnings (fst (validateTwice P clk es k)) = warnings (snd (validateTwice P clk es k)) \<and>
    isValid (fst (validateTwice P clk es k)) = isValid (snd (validateTwice P clk es k))"
proof -
  let ?k1 = "k + sum_list (map (clockReads P) es)"
  from assms have "\<forall>i < sum_list (map (clockReads P) es). clk (k + i) = clk (?k1 + i)"
    by (simp add: validateTimesheet_ticks)
  then have "allPushes P clk 0 es k = allPushes P clk 0 es ?k1"
    by (rule allPushes_clock_cong)
  then show ?thesis
    by (simp add: validateTwice_def validateTimesheet_allPushes)
qed

theorem validate_twice_same_findings_witness:
  "fst (validateTwice samplePlatform sampleClock [scenarioE, fifteenDays] 0) =
     \<lparr>isValid = False,
      errors = [\<lparr>row = 1, field = ''reportedHours'',
         message = ''Reported hours (50) cannot exceed schedule hours (40)'',
         severity = Error\<rparr>],
      warnings = [\<lparr>row = 2, field = ''endDate'',
         message = ''Long period (15 days). Typical periods are 7-14 days'',
         severity = Warning\<rparr>]\<rparr> \<and>
   errors (snd (validateTwice samplePlatform sampleClock [scenarioE, fifteenDays] 0)) =
     errors (fst (validateTwice samplePlatform sampleClock [scenarioE, fifteenDays] 0)) \<and>
   warnings (snd (validateTwice samplePlatform sampleClock [scenarioE, fifteenDays] 0)) =
     warnings (fst (validateTwice samplePlatform sampleClock [scenarioE, fifteenDays] 0))"
proof -
  have first: "validateTimesheet samplePlatform sampleClock [scenarioE, fifteenDays] 0 =
     (\<lparr>isValid = False,
      errors = [\<lparr>row = 1, field = ''reportedHours'',
         message = ''Reported hours (50) cannot exceed schedule hours (40)'',
         severity = Error\<rparr>],
      warnings = [\<lparr>row = 2, field = ''endDate'',
         message = ''Long period (15 days). Typical periods are 7-14 days'',
         severity = Warning\<rparr>]\<rparr>, 4)"
    by (simp add: validateTimesheet_def check_defs sample_defs scenarioA_def scenarioD_def
        scenarioE_def fifteenDays_def floor_rat_numeral)
  have same: "\<forall>i < snd (validateTimesheet samplePlatform sampleClock [scenarioE, fifteenDays] 0) - 0.
      sampleClock (snd (validateTimesheet samplePlatform sampleClock [scenarioE, fifteenDays] 0) + i) =
      sampleClock (0 + i)"
    by (simp add: sampleClock_def)
  have fst_eq: "fst (validateTwice samplePlatform sampleClock [scenarioE, fifteenDays] 0) =
      fst (validateTimesheet samplePlatform sampleClock [scenarioE, fifteenDays] 0)"
    by (simp add: validateTwice_def split: prod.splits)
  from validate_twice_same_findings [OF same] fst_eq first show ?thesis
    by simp
qed

section \<open>Properties of the parser\<close>

lemma fold_update_other:
  "k \<notin> fst ` set kvs \<Longrightarrow> fold (\<lambda>(f, v) obj. obj(f \<mapsto> g v f)) kvs m k = m k"
  by (induction kvs arbitrary: m) auto

lemma fold_zip_lookup:
  "distinct fs \<Longrightarrow> length cs = length fs \<Longrightarrow> j < length fs \<Longrightarrow>
   fold (\<lambda>(f, v) obj. obj(f \<mapsto> g v f)) (zip fs cs) m (fs ! j) = Some (g (cs ! j) (fs ! j))"
proof (induction fs arbitrary: cs j m)
  case Nil
  then show ?case by simp
next
  case (Cons f fs)
  from Cons.prems(2) obtain c cs' where cs: "cs = c # cs'" and len: "length cs' = length fs"
    by (cases cs) auto
  show ?case
  proof (cases j)
    case 0
    from Cons.prems(1) have "f \<notin> fst ` set (zip fs cs')"
      by (auto dest: set_zip_leftD)
    then have "fold (\<lambda>(f, v) obj. obj(f \<mapsto> g v f)) (zip fs cs') (m(f \<mapsto> g c f)) f =
        (m(f \<mapsto> g c f)) f"
      by (rule fold_update_other)
    then show ?thesis
      by (simp add: 0 cs fun_upd_same del: fun_upd_apply)
  next
    case (Suc j')
    with Cons.prems have "distinct fs" and "j' < length fs" by simp_all
    from Cons.IH [OF this(1) len this(2)] show ?thesis
      by (simp add: Suc cs)
  qed
qed

lemma rowObject_lookup:
  "distinct columns \<Longrightarrow> length cells = length columns \<Longrightarrow> j < length columns \<Longrightarrow>
   rowObject P columns cells (columns ! j) = Some (transform P (cells ! j) (columns ! j))"
  unfolding rowObject_def by (rule fold_zip_lookup)

lemma postProcess_lookup:
  "postProcess P entry k =
     (if k \<in> set numericFields then Some (Num (numberOf P entry k))
      else map_option Str (entry k))"
  by (simp add: postProcess_def numericFields_def)

lemma numberOf_transform:
  assumes "k \<in> set numericFields" and "entry k = Some (transform P v k)"
    and "parseFloat P ''0'' = Some 0" and "\<forall>s. parseFloat P (trim s) = parseFloat P s"
  shows "numberOf P entry k =
     (if trim v = [] then 0 else case parseFloat P v of None \<Rightarrow> 0 | Some x \<Rightarrow> x)"
proof -
  have blank: "v = [] \<Longrightarrow> trim v = []" by (simp add: trim_def)
  show ?thesis
    using assms blank
    by (auto simp: numberOf_def transform_def orZero_def split: option.splits)
qed

lemma dropWhile_snoc_keep: "\<not> Q x \<Longrightarrow> dropWhile Q (ys @ [x]) = dropWhile Q ys @ [x]"
  by (induction ys) auto

lemma dropWhile_rev_dropWhile:
  "dropWhile Q (rev (dropWhile Q (rev (dropWhile Q s)))) = rev (dropWhile Q (rev (dropWhile Q s)))"
proof (cases "dropWhile Q s")
  case Nil
  show ?thesis unfolding Nil by simp
next
  case (Cons x t)
  then have "\<not> Q x"
    using hd_dropWhile [of Q s] by auto
  then have "dropWhile Q (rev t @ [x]) = dropWhile Q (rev t) @ [x]"
    by (rule dropWhile_snoc_keep)
  with \<open>\<not> Q x\<close> show ?thesis
    by (simp add: Cons)
qed

lemma trim_idem: "trim (trim s) = trim s"
  unfolding trim_def dropWhile_rev_dropWhile by simp

lemma sampleParseFloat_trim: "\<forall>s. parseFloat samplePlatform (trim s) = parseFloat samplePlatform s"
  by (simp add: samplePlatform_def sampleParseFloat_def trim_idem)

lemmas parser_defs = transformHeader_def toLowerCase_def trim_def isWhiteSpace_def
  headerMap_def numericFields_def transform_def

lemmas reader_defs = simpleReader_def cellsOf_def unquote_def

text \<open>
  Claim C6. When the reader completes without errors, the record of a row holds, under
  the (transformed) name of each column: for a numeric hour bucket the number 0 when the
  raw cell is blank or not numeric, and the parsed number otherwise; for any other
  column the trimmed cell, as a string. The statement is for ASCII cells and ordinary
  headers, on which the model's \<open>trim\<close>, \<open>toLowerCase\<close> and header lookup are
  JavaScript's; the columns are assumed to have distinct names, and \<open>parseFloat\<close>
  to read \<open>0\<close> as zero and to skip surrounding white space, as the one of ECMAScript
  does.
\<close>

theorem parseCSV_cell_values:
  assumes "read content = ReadComplete raw" and "rawErrors raw = []"
    and "distinct (map transformHeader (rawFields raw))"
    and "i < length (rawRows raw)"
    and "length (rawRows raw ! i) = length (rawFields raw)"
    and "j < length (rawFields raw)"
    and "list_all ordinaryHeader (rawFields raw)"
    and "isAscii (rawRows raw ! i ! j)"
    and "parseFloat P ''0'' = Some 0"
    and "\<forall>s. parseFloat P (trim s) = parseFloat P s"
  shows "\<exists>records. parseCSV P read content = Inr records \<and>
    (records ! i) (transformHeader (rawFields raw ! j)) =
      Some (if transformHeader (rawFields raw ! j) \<in> set numericFields
            then Num (if trim (rawRows raw ! i ! j) = [] then 0
                      else case parseFloat P (rawRows raw ! i ! j) of
                             None \<Rightarrow> 0
                           | Some x \<Rightarrow> x)
            else Str (trim (rawRows raw ! i ! j)))"
proof -
  let ?columns = "map transformHeader (rawFields raw)"
  let ?cells = "rawRows raw ! i"
  let ?k = "transformHeader (rawFields raw ! j)"
  let ?obj = "rowObject P ?columns ?cells"
  have parsed: "parseCSV P read content = Inr (map (postProcess P) (papaData P raw))"
    using assms(1,2) by (simp add: parseCSV_def)
  have nth: "map (postProcess P) (papaData P raw) ! i = postProcess P ?obj"
    using assms(4) by (simp add: papaData_def)
  have "?obj (?columns ! j) = Some (transform P (?cells ! j) (?columns ! j))"
    using assms(3,5,6) by (intro rowObject_lookup) simp_all
  then have cell: "?obj ?k = Some (transform P (?cells ! j) ?k)"
    using assms(6) by simp
  have "postProcess P ?obj ?k =
      Some (if ?k \<in> set numericFields
            then Num (if trim (?cells ! j) = [] then 0
                      else case parseFloat P (?cells ! j) of None \<Rightarrow> 0 | Some x \<Rightarrow> x)
            else Str (trim (?cells ! j)))"
  proof (cases "?k \<in> set numericFields")
    case True
    from numberOf_transform [of ?k ?obj P "?cells ! j", OF True cell assms(9,10)] True
    show ?thesis
      by (simp add: postProcess_lookup)
  next
    case False
    with cell show ?thesis
      by (simp add: postProcess_lookup transform_def)
  qed
  with parsed nth show ?thesis by simp
qed

theorem parseCSV_cell_values_witness:
  "(\<exists>records. parseCSV samplePlatform simpleReader sampleFile = Inr records \<and>
      (records ! 0) ''employeeId'' = Some (Str ''E7'')) \<and>
   (\<exists>records. parseCSV samplePlatform simpleReader sampleFile = Inr records \<and>
      (records ! 0) ''scheduleHours'' = Some (Num 40)) \<and>
   (\<exists>records. parseCSV samplePlatform simpleReader sampleFile = Inr records \<and>
      (records ! 0) ''reportedHours'' = Some (Num 0)) \<and>
   (\<exists>records. parseCSV samplePlatform simpleReader sampleFile = Inr records \<and>
      (records ! 0) ''totalHours'' = Some (Num 0)) \<and>
   (\<exists>records. parseCSV samplePlatform simpleReader sampleFile = Inr records \<and>
      (records ! 0) ''Notes'' = Some (Str ''late''))"
proof -
  define raw where "raw =
    \<lparr>rawFields = [''Empl ID'', '' Start Date '', ''status'', ''Schedule Hours'',
        ''reported_hours'', ''Total Hours'', ''Notes''],
     rawRows = [['' E7 '', ''2024-01-01'', ''Approved'', '' 40 '', ''  '', ''n/a'', ''  late  ''],
        [''E8'', ''2024-01-08'', ''Not Submitted'', ''8'', ''0'', ''abc'', []]],
     rawErrors = []\<rparr>"
  have read: "simpleReader sampleFile = ReadComplete raw"
    by (simp add: raw_def reader_defs sampleFile_def)
  have noErrors: "rawErrors raw = []"
    by (simp add: raw_def)
  have columns: "map transformHeader (rawFields raw) =
      [''employeeId'', ''startDate'', ''timesheetStatus'', ''scheduleHours'', ''reportedHours'',
       ''totalHours'', ''Notes'']"
    by (simp add: raw_def parser_defs)
  have dist: "distinct (map transformHeader (rawFields raw))"
    unfolding columns by simp
  have row: "0 < length (rawRows raw)" "length (rawRows raw ! 0) = length (rawFields raw)"
    by (simp_all add: raw_def)
  have zero: "parseFloat samplePlatform ''0'' = Some 0"
    by (simp add: samplePlatform_def sampleParseFloat_def trim_def isWhiteSpace_def)
  have c0: "transformHeader (rawFields raw ! 0) = ''employeeId''"
    and c3: "transformHeader (rawFields raw ! 3) = ''scheduleHours''"
    and c4: "transformHeader (rawFields raw ! 4) = ''reportedHours''"
    and c5: "transformHeader (rawFields raw ! 5) = ''totalHours''"
    and c6: "transformHeader (rawFields raw ! 6) = ''Notes''"
    by (simp_all add: raw_def parser_defs)
  have v: "rawRows raw ! 0 ! 0 = '' E7 ''" "rawRows raw ! 0 ! 3 = '' 40 ''"
    "rawRows raw ! 0 ! 4 = ''  ''" "rawRows raw ! 0 ! 5 = ''n/a''"
    "rawRows raw ! 0 ! 6 = ''  late  ''"
    by (simp_all add: raw_def)
  have len: "0 < length (rawFields raw)" "3 < length (rawFields raw)" "4 < length (rawFields raw)"
    "5 < length (rawFields raw)" "6 < length (rawFields raw)"
    by (simp_all add: raw_def)
  have headers: "list_all ordinaryHeader (rawFields raw)"
    by (simp add: raw_def ordinaryHeader_def isAscii_def inheritedKeys_def toLowerCase_def
        trim_def isWhiteSpace_def)
  have ascii: "isAscii (rawRows raw ! 0 ! 0)" "isAscii (rawRows raw ! 0 ! 3)"
    "isAscii (rawRows raw ! 0 ! 4)" "isAscii (rawRows raw ! 0 ! 5)"
    "isAscii (rawRows raw ! 0 ! 6)"
    by (simp_all add: raw_def isAscii_def)
  note cell = parseCSV_cell_values [where read = simpleReader and content = sampleFile
      and raw = raw and i = 0 and P = samplePlatform]
  from cell [where j = 0, OF read noErrors dist row len(1) headers ascii(1) zero
        sampleParseFloat_trim]
    cell [where j = 3, OF read noErrors dist row len(2) headers ascii(2) zero
        sampleParseFloat_trim]
    cell [where j = 4, OF read noErrors dist row len(3) headers ascii(3) zero
        sampleParseFloat_trim]
    cell [where j = 5, OF read noErrors dist row len(4) headers ascii(4) zero
        sampleParseFloat_trim]
    cell [where j = 6, OF read noErrors dist row len(5) headers ascii(5) zero
        sampleParseFloat_trim]
  show ?thesis
    unfolding c0 c3 c4 c5 c6 v
    by (simp add: numericFields_def trim_def isWhiteSpace_def samplePlatform_def
        sampleParseFloat_def)
qed

text \<open>
  Claim C7. When the reader reports one or more errors, \<open>parseCSV\<close> is rejected with
  the single message built from the first error and resolves with no records; when it
  reports none, \<open>parseCSV\<close> resolves with one record per row, in row order.
\<close>

theorem parseCSV_all_or_nothing:
  assumes "read content = ReadComplete raw"
  shows "(rawErrors raw \<noteq> [] \<longrightarrow>
      parseCSV P read content = Inl (''CSV parsing error: '' @ hd (rawErrors raw)) \<and>
      (\<nexists>records. parseCSV P read content = Inr records)) \<and>
    (rawErrors raw = [] \<longrightarrow>
      (\<exists>records. parseCSV P read content = Inr records \<and>
         length records = length (rawRows raw) \<and>
         records =
           map (\<lambda>cells. postProcess P (rowObject P (map transformHeader (rawFields raw)) cells))
             (rawRows raw)))"
  using assms by (simp add: parseCSV_def papaData_def comp_def)

theorem parseCSV_all_or_nothing_witness:
  "parseCSV samplePlatform simpleReader brokenFile = Inl ''CSV parsing error: Too few fields'' \<and>
   (\<exists>records. parseCSV samplePlatform simpleReader sampleFile = Inr records \<and>
      length records = 2 \<and>
      map (\<lambda>r. r ''employeeId'') records = [Some (Str ''E7''), Some (Str ''E8'')])"
proof -
  define broken where "broken =
    \<lparr>rawFields = [''Empl ID'', ''Start Date'', ''Status''],
     rawRows = [[''E7'', ''2024-01-01'', ''Approved''], [''E8'', ''2024-01-08'']],
     rawErrors = [''Too few fields'']\<rparr>"
  define raw where "raw =
    \<lparr>rawFields = [''Empl ID'', '' Start Date '', ''status'', ''Schedule Hours'',
        ''reported_hours'', ''Total Hours'', ''Notes''],
     rawRows = [['' E7 '', ''2024-01-01'', ''Approved'', '' 40 '', ''  '', ''n/a'', ''  late  ''],
        [''E8'', ''2024-01-08'', ''Not Submitted'', ''8'', ''0'', ''abc'', []]],
     rawErrors = []\<rparr>"
  have readBroken: "simpleReader brokenFile = ReadComplete broken"
    by (simp add: broken_def reader_defs brokenFile_def)
  have read: "simpleReader sampleFile = ReadComplete raw"
    by (simp add: raw_def reader_defs sampleFile_def)
  have columns: "map transformHeader (rawFields raw) =
      [''employeeId'', ''startDate'', ''timesheetStatus'', ''scheduleHours'', ''reportedHours'',
       ''totalHours'', ''Notes'']"
    by (simp add: raw_def parser_defs)
  from parseCSV_all_or_nothing [where read = simpleReader and content = brokenFile
      and raw = broken and P = samplePlatform, OF readBroken]
  have first: "parseCSV samplePlatform simpleReader brokenFile =
      Inl ''CSV parsing error: Too few fields''"
    by (simp add: broken_def)
  from parseCSV_all_or_nothing [where read = simpleReader and content = sampleFile
      and raw = raw and P = samplePlatform, OF read]
  have "\<exists>records. parseCSV samplePlatform simpleReader sampleFile = Inr records \<and>
      length records = 2 \<and>
      map (\<lambda>r. r ''employeeId'') records = [Some (Str ''E7''), Some (Str ''E8'')]"
    unfolding columns
    by (simp add: raw_def rowObject_def postProcess_def transform_def numericFields_def
        trim_def isWhiteSpace_def)
  with first show ?thesis by simp
qed

section \<open>Export and re-import\<close>

lemma set_insertSorted: "set (insertSorted cmp x ys) = insert x (set ys)"
  by (induction ys) auto

lemma set_sortedEntries: "set (sortedEntries sortField sortDir es) = set es"
  unfolding sortedEntries_def by (induction es) (simp_all add: set_insertSorted)

lemma canonical_columns:
  "map transformHeader exportHeaders =
     [''employeeId'', ''startDate'', ''endDate'', ''timesheetStatus'', ''scheduleHours'',
      ''reportedHours'', ''regularHours'', ''overtimeHours'', ''holidayHours'', ''leaveHours'',
      ''totalHours'']"
  by (simp add: exportHeaders_def parser_defs)

lemma rowObject_export:
  "rowObject P (map transformHeader exportHeaders) (exportCells P e) =
     [''employeeId'' \<mapsto> transform P (employeeId e) ''employeeId'',
      ''startDate'' \<mapsto> transform P (startDate e) ''startDate'',
      ''endDate'' \<mapsto> transform P (endDate e) ''endDate'',
      ''timesheetStatus'' \<mapsto> transform P (timesheetStatus e) ''timesheetStatus'',
      ''scheduleHours'' \<mapsto> transform P (numToString P (scheduleHours e)) ''scheduleHours'',
      ''reportedHours'' \<mapsto> transform P (numToString P (reportedHours e)) ''reportedHours'',
      ''regularHours'' \<mapsto> transform P (numToString P (regularHours e)) ''regularHours'',
      ''overtimeHours'' \<mapsto> transform P (numToString P (overtimeHours e)) ''overtimeHours'',
      ''holidayHours'' \<mapsto> transform P (numToString P (holidayHours e)) ''holidayHours'',
      ''leaveHours'' \<mapsto> transform P (numToString P (leaveHours e)) ''leaveHours'',
      ''totalHours'' \<mapsto> transform P (numToString P (totalHours e)) ''totalHours'']"
  unfolding canonical_columns rowObject_def exportCells_def
  by (simp del: fun_upd_apply)

lemma asEntry_export:
  assumes "cleanEntry P e"
  shows "asEntry (postProcess P (rowObject P (map transformHeader exportHeaders) (exportCells P e))) = e"
proof -
  let ?obj = "rowObject P (map transformHeader exportHeaders) (exportCells P e)"
  have str: "strProp (postProcess P ?obj) ''employeeId'' = employeeId e"
    "strProp (postProcess P ?obj) ''startDate'' = startDate e"
    "strProp (postProcess P ?obj) ''endDate'' = endDate e"
    "strProp (postProcess P ?obj) ''timesheetStatus'' = timesheetStatus e"
    using assms
    by (simp_all add: strProp_def postProcess_lookup numericFields_def rowObject_export
        transform_def cleanEntry_def cleanText_def)
  have num: "numProp (postProcess P ?obj) ''scheduleHours'' = scheduleHours e"
    "numProp (postProcess P ?obj) ''reportedHours'' = reportedHours e"
    "numProp (postProcess P ?obj) ''regularHours'' = regularHours e"
    "numProp (postProcess P ?obj) ''overtimeHours'' = overtimeHours e"
    "numProp (postProcess P ?obj) ''holidayHours'' = holidayHours e"
    "numProp (postProcess P ?obj) ''leaveHours'' = leaveHours e"
    "numProp (postProcess P ?obj) ''totalHours'' = totalHours e"
    using assms
    by (simp_all add: numProp_def postProcess_lookup numericFields_def rowObject_export
        numberOf_def transform_def orZero_def cleanEntry_def cleanText_def printsBack_def)
  show ?thesis
    by (simp add: asEntry_def str num)
qed

lemmas export_defs = exportToCSV_def exportLine_def exportHeaders_def exportCells_def
  sortedEntries_def compareEntries_def toObject_def

lemmas week_defs = weekOne_def weekTwo_def scenarioA_def

lemma parse_of_exported_cells:
  assumes "read (exportToCSV P sortField sortDir es) =
      ReadComplete \<lparr>rawFields = exportHeaders,
        rawRows = map (exportCells P) (sortedEntries sortField sortDir es),
        rawErrors = []\<rparr>"
    and "\<forall>e \<in> set es. cleanEntry P e"
  shows "parseEntries P read (exportToCSV P sortField sortDir es) =
      Inr (sortedEntries sortField sortDir es)"
proof -
  have "map (\<lambda>e. asEntry (postProcess P
          (rowObject P (map transformHeader exportHeaders) (exportCells P e))))
        (sortedEntries sortField sortDir es) = sortedEntries sortField sortDir es"
    using assms(2) by (intro map_idI asEntry_export) (simp add: set_sortedEntries)
  then show ?thesis
    using assms(1) by (simp add: parseEntries_def parseCSV_def papaData_def comp_def)
qed

lemma splitOn_before:
  "d \<notin> set x \<Longrightarrow> splitOn d (x @ d # rest) = x # splitOn d rest"
  by (induction x) auto

lemma splitOn_whole: "d \<notin> set x \<Longrightarrow> splitOn d x = [x]"
  by (induction x) auto

lemma splitOn_join:
  "xs \<noteq> [] \<Longrightarrow> \<forall>x \<in> set xs. d \<notin> set x \<Longrightarrow> splitOn d (join [d] xs) = xs"
proof (induction "[d]" xs rule: join.induct)
  case 1
  then show ?case by simp
next
  case (2 x)
  then show ?case by (simp add: splitOn_whole)
next
  case (3 x y ys)
  then show ?case by (simp add: splitOn_before)
qed

lemma set_join_subset:
  "c \<in> set (join sep xs) \<Longrightarrow> c \<in> set sep \<or> (\<exists>x \<in> set xs. c \<in> set x)"
  by (induction sep xs rule: join.induct) auto

lemma unquote_plain: "plainCell c \<Longrightarrow> unquote c = c"
proof (cases c)
  case Nil
  then show ?thesis by (simp add: unquote_def)
next
  case (Cons x xs)
  assume "plainCell c"
  with Cons have "x \<noteq> CHR 0x22" by (auto simp: plainCell_def)
  with Cons show ?thesis by (simp add: unquote_def)
qed

lemma unquote_quoted: "unquote ([CHR 0x22] @ s @ [CHR 0x22]) = s"
  by (simp add: unquote_def butlast_append)

lemma cellsOf_join:
  assumes "cells \<noteq> []" and "\<forall>c \<in> set cells. CHR '','' \<notin> set c"
  shows "cellsOf (join '','' cells) = map unquote cells"
  using splitOn_join [OF assms(1), of "CHR '',''"] assms(2) by (simp add: cellsOf_def)

lemma cellsOf_exportLine:
  assumes "plainEntry P e"
  shows "cellsOf (exportLine P e) = exportCells P e"
proof -
  from assms have plain: "plainCell (employeeId e)" "plainCell (startDate e)"
    "plainCell (endDate e)" "plainCell (timesheetStatus e)"
    "plainCell (numToString P (scheduleHours e))" "plainCell (numToString P (reportedHours e))"
    "plainCell (numToString P (regularHours e))" "plainCell (numToString P (overtimeHours e))"
    "plainCell (numToString P (holidayHours e))" "plainCell (numToString P (leaveHours e))"
    "plainCell (numToString P (totalHours e))"
    by (simp_all add: plainEntry_def exportCells_def)
  have "cellsOf (exportLine P e) =
      map unquote [employeeId e, startDate e, endDate e,
        [CHR 0x22] @ timesheetStatus e @ [CHR 0x22],
        numToString P (scheduleHours e), numToString P (reportedHours e),
        numToString P (regularHours e), numToString P (overtimeHours e),
        numToString P (holidayHours e), numToString P (leaveHours e),
        numToString P (totalHours e)]"
    unfolding exportLine_def
    using plain by (intro cellsOf_join) (simp_all add: plainCell_def)
  also have "\<dots> = exportCells P e"
    using plain unquote_quoted [of "timesheetStatus e"]
    by (simp add: exportCells_def unquote_plain)
  finally show ?thesis .
qed

lemma cellsOf_headerLine: "cellsOf (join '','' exportHeaders) = exportHeaders"
  by (simp add: cellsOf_def exportHeaders_def unquote_def)

lemma exportLine_no_linefeed:
  assumes "plainEntry P e"
  shows "CHR 0x0A \<notin> set (exportLine P e)"
proof
  assume "CHR 0x0A \<in> set (exportLine P e)"
  from set_join_subset [OF this [unfolded exportLine_def]] assms show False
    by (auto simp: plainEntry_def exportCells_def plainCell_def)
qed

lemma exportLine_not_empty: "exportLine P e \<noteq> []"
  by (simp add: exportLine_def)

lemma length_exportCells: "length (exportCells P e) = length exportHeaders"
  by (simp add: exportCells_def exportHeaders_def)

lemma simpleReader_export:
  assumes "\<forall>e \<in> set es. plainEntry P e"
  shows "simpleReader (exportToCSV P sortField sortDir es) =
      ReadComplete \<lparr>rawFields = exportHeaders,
        rawRows = map (exportCells P) (sortedEntries sortField sortDir es),
        rawErrors = []\<rparr>"
proof -
  let ?sorted = "sortedEntries sortField sortDir es"
  let ?lines = "join '','' exportHeaders # map (exportLine P) ?sorted"
  have plain: "\<forall>e \<in> set ?sorted. plainEntry P e"
    using assms by (simp add: set_sortedEntries)
  have "CHR 0x0A \<notin> set (join '','' exportHeaders)"
    by (simp add: exportHeaders_def)
  with plain have noLF: "\<forall>l \<in> set ?lines. CHR 0x0A \<notin> set l"
    by (auto simp: exportLine_no_linefeed)
  have split: "splitOn (CHR 0x0A) (exportToCSV P sortField sortDir es) = ?lines"
    unfolding exportToCSV_def using noLF by (intro splitOn_join) simp_all
  have "join '','' exportHeaders \<noteq> []"
    by (simp add: exportHeaders_def)
  then have keep: "filter (\<lambda>line. line \<noteq> []) ?lines = ?lines"
    by (simp add: exportLine_not_empty)
  have rows: "map cellsOf (map (exportLine P) ?sorted) = map (exportCells P) ?sorted"
    using plain by (simp add: cellsOf_exportLine)
  have noErrors: "concat (map (\<lambda>line.
        if length (cellsOf line) < length exportHeaders then [''Too few fields'']
        else if length (cellsOf line) > length exportHeaders then [''Too many fields'']
        else []) (map (exportLine P) ?sorted)) = []"
    using plain by (simp add: cellsOf_exportLine length_exportCells)
  show ?thesis
    unfolding simpleReader_def split keep
    by (simp only: list.case rows noErrors cellsOf_headerLine)
qed




text \<open>
  With the sample reader the round trip holds for every sequence of plain, clean
  records; a padded identifier comes back trimmed, and an identifier with a comma, which
  the export does not quote, makes the parse fail.
\<close>

lemma export_then_parse_simpleReader:
  assumes "\<forall>e \<in> set es. plainEntry P e" and "\<forall>e \<in> set es. cleanEntry P e"
  shows "parseEntries P simpleReader (exportToCSV P sortField sortDir es) =
      Inr (sortedEntries sortField sortDir es)"
  using simpleReader_export [OF assms(1)] assms(2) by (rule parse_of_exported_cells)

lemma export_padded_id_trimmed:
  "parseEntries samplePlatform simpleReader
     (exportToCSV samplePlatform ''startDate'' Asc [weekOne\<lparr>employeeId := '' E1''\<rparr>]) =
     Inr [weekOne]"
proof -
  have read: "simpleReader
      (exportToCSV samplePlatform ''startDate'' Asc [weekOne\<lparr>employeeId := '' E1''\<rparr>]) =
      ReadComplete \<lparr>rawFields = exportHeaders,
        rawRows = [['' E1'', ''2024-01-01'', ''2024-01-08'', ''Approved'',
                    ''40'', ''40'', ''40'', ''0'', ''0'', ''0'', ''40'']],
        rawErrors = []\<rparr>"
    by (simp add: reader_defs export_defs week_defs sample_defs)
  show ?thesis
    unfolding parseEntries_def parseCSV_def read
    by (simp add: papaData_def canonical_columns rowObject_def postProcess_def asEntry_def
        strProp_def numProp_def numberOf_def orZero_def transform_def numericFields_def
        trim_def isWhiteSpace_def week_defs sample_defs sampleParseFloat_def)
qed

lemma export_comma_id_rejected:
  "parseEntries samplePlatform simpleReader
     (exportToCSV samplePlatform ''startDate'' Asc [weekOne\<lparr>employeeId := ''E,1''\<rparr>]) =
     Inl ''CSV parsing error: Too many fields''"
proof -
  have read: "simpleReader
      (exportToCSV samplePlatform ''startDate'' Asc [weekOne\<lparr>employeeId := ''E,1''\<rparr>]) =
      ReadComplete \<lparr>rawFields = exportHeaders,
        rawRows = [[''E'', ''1'', ''2024-01-01'', ''2024-01-08'', ''Approved'',
                    ''40'', ''40'', ''40'', ''0'', ''0'', ''0'', ''40'']],
        rawErrors = [''Too many fields'']\<rparr>"
    by (simp add: reader_defs export_defs week_defs sample_defs)
  show ?thesis
    unfolding parseEntries_def parseCSV_def read by simp
qed

end
